theory Spec2Isabelle
  imports Complex_Main
begin

section \<open>Numbers, points and windows\<close>

text \<open>
  The agent of \<^verbatim>\<open>agent.py\<close> computes on numpy \<^verbatim>\<open>float64\<close> values. They are
  read here as real numbers, so rounding errors of the machine arithmetic are outside
  this development. What is kept of the machine arithmetic is the one effect the control
  flow depends on: numpy divides by zero without raising (it warns and yields a
  non-finite value), and every comparison with a non-finite value is false. A point with
  a non-finite coordinate is the value \<open>None\<close>.

  A point is a pair (index 0, index 1) as in the arrays of the source, a window is the
  four corners \<^verbatim>\<open>corners[0]\<close> .. \<^verbatim>\<open>corners[3]\<close>.
\<close>

type_synonym point = "real \<times> real"

type_synonym corners = "point \<times> point \<times> point \<times> point"

definition vadd :: "point \<Rightarrow> point \<Rightarrow> point" where
  "vadd p q = (fst p + fst q, snd p + snd q)"

definition vsub :: "point \<Rightarrow> point \<Rightarrow> point" where
  "vsub p q = (fst p - fst q, snd p - snd q)"

definition vscale :: "point \<Rightarrow> real \<Rightarrow> point" where
  "vscale p c = (fst p * c, snd p * c)"

definition norm2 :: "point \<Rightarrow> real" where
  \<comment> \<open>\<^verbatim>\<open>np.linalg.norm\<close> of a vector of two components\<close>
  "norm2 p = sqrt ((fst p)\<^sup>2 + (snd p)\<^sup>2)"

definition vdiv :: "point \<Rightarrow> real \<Rightarrow> point option" where
  \<comment> \<open>\<^verbatim>\<open>v / n\<close> on arrays: a zero divisor gives a non-finite vector, no exception\<close>
  "vdiv v n = (if n = 0 then None else Some (fst v / n, snd v / n))"

definition shift :: "point option \<Rightarrow> point option \<Rightarrow> real \<Rightarrow> point option" where
  \<comment> \<open>\<^verbatim>\<open>p + u * change\<close>; a non-finite operand gives a non-finite result\<close>
  "shift p u change =
     (case p of None \<Rightarrow> None
      | Some q \<Rightarrow> (case u of None \<Rightarrow> None | Some w \<Rightarrow> Some (vadd q (vscale w change))))"

definition mean4 :: "corners \<Rightarrow> point" where
  \<comment> \<open>\<^verbatim>\<open>np.mean(corners, axis=0)\<close>\<close>
  "mean4 cs = (case cs of (a, b, c, d) \<Rightarrow>
     ((fst a + fst b + fst c + fst d) / 4, (snd a + snd b + snd c + snd d) / 4))"

definition midpoint2 :: "point \<Rightarrow> point \<Rightarrow> point" where
  \<comment> \<open>\<^verbatim>\<open>(p + q) / 2\<close>\<close>
  "midpoint2 p q = ((fst p + fst q) / 2, (snd p + snd q) / 2)"

definition fmod :: "real \<Rightarrow> real \<Rightarrow> real" where
  \<comment> \<open>Python's \<^verbatim>\<open>x % m\<close> on numbers: the remainder of the floor division\<close>
  "fmod x m = x - m * of_int \<lfloor>x / m\<rfloor>"

definition py_round :: "real \<Rightarrow> int" where
  \<comment> \<open>Python's \<^verbatim>\<open>round(x)\<close>: to the nearest integer, a tie to the even one\<close>
  "py_round x =
     (let f = \<lfloor>x\<rfloor>; d = x - of_int f
      in if d < 1 / 2 then f else if 1 / 2 < d then f + 1
         else if even f then f else f + 1)"

section \<open>The direction of a window\<close>

definition get_direction :: "point \<Rightarrow> point \<Rightarrow> real" where
  "get_direction start endp =
     (let vec = vsub endp start;
          a = (if snd vec > 0 then arctan (fst vec / snd vec) / 1.57 * 90
               else if snd vec < 0 then arctan (fst vec / snd vec) / 1.57 * 90 + 180
               else if sgn (fst vec) = 1 then 90 else 270)
      in fmod (360 - a + 90) 360)"

definition current_direction :: "corners \<Rightarrow> int" where
  \<comment> \<open>line 301: \<^verbatim>\<open>round(get_direction(mean, (corners[0] + corners[1]) / 2)) % 360\<close>\<close>
  "current_direction cs = (case cs of (c0, c1, c2, c3) \<Rightarrow>
     py_round (get_direction (mean4 cs) (midpoint2 c0 c1)) mod 360)"

definition applied_angle :: "corners \<Rightarrow> real \<Rightarrow> real option \<Rightarrow> real" where
  \<comment> \<open>lines 302-304: the value of \<^verbatim>\<open>angle\<close> after the drift test\<close>
  "applied_angle cs angle input_current_direction =
     (case input_current_direction of
        None \<Rightarrow> angle
      | Some icd \<Rightarrow>
          if \<bar>icd - of_int (current_direction cs)\<bar> > 2 then angle + icd else angle)"

section \<open>The view transform\<close>

datatype py_error =
  ZeroDivisionError | LinAlgError | TypeError | NameError | IndexError
  | NotImplementedError | SystemExit

definition move_view_corner_forward :: "corners \<Rightarrow> real \<Rightarrow> point option list" where
  "move_view_corner_forward cs change = (case cs of (c0, c1, c2, c3) \<Rightarrow>
     [shift (Some c0) (vdiv (vsub c0 c3) (norm2 (vsub c3 c0))) change,
      shift (Some c1) (vdiv (vsub c1 c2) (norm2 (vsub c2 c1))) change,
      shift (Some c2) (vdiv (vsub c1 c2) (norm2 (vsub c2 c1))) change,
      shift (Some c3) (vdiv (vsub c0 c3) (norm2 (vsub c3 c0))) change])"

definition rotation_anticlock :: "real \<Rightarrow> point \<Rightarrow> point" where
  "rotation_anticlock theta p =
     (cos (theta / 180 * 3.14159) * fst p + sin (theta / 180 * 3.14159) * snd p,
      - sin (theta / 180 * 3.14159) * fst p + cos (theta / 180 * 3.14159) * snd p)"

definition change_corner :: "corners \<Rightarrow> real \<Rightarrow> point option list" where
  "change_corner cs change = (case cs of (c0, c1, c2, c3) \<Rightarrow>
     [shift (shift (Some c0) (vdiv (vsub c0 c1) (norm2 (vsub c1 c0))) change)
            (vdiv (vsub c0 c3) (norm2 (vsub c3 c0))) change,
      shift (shift (Some c1) (vdiv (vsub c1 c0) (norm2 (vsub c1 c0))) change)
            (vdiv (vsub c1 c2) (norm2 (vsub c2 c1))) change,
      shift (shift (Some c2) (vdiv (vsub c2 c3) (norm2 (vsub c2 c3))) change)
            (vdiv (vsub c2 c1) (norm2 (vsub c2 c1))) change,
      shift (shift (Some c3) (vdiv (vsub c3 c2) (norm2 (vsub c2 c3))) change)
            (vdiv (vsub c3 c0) (norm2 (vsub c3 c0))) change])"

definition inside :: "point \<Rightarrow> point \<Rightarrow> point \<Rightarrow> bool" where
  \<comment> \<open>the test of lines 316, 337 and 350, strict on all four sides\<close>
  "inside bl tr p =
     (fst p > fst bl \<and> fst p < fst tr \<and> snd p > snd bl \<and> snd p < snd tr)"

fun admit :: "point \<Rightarrow> point \<Rightarrow> point option list \<Rightarrow> point list" where
  \<comment> \<open>the loops that append the corners in bounds and \<^verbatim>\<open>break\<close> at the first one
      that is not; a non-finite corner fails every comparison\<close>
  "admit bl tr [] = []"
| "admit bl tr (None # ps) = []"
| "admit bl tr (Some p # ps) = (if inside bl tr p then p # admit bl tr ps else [])"

definition zoom_corners :: "corners \<Rightarrow> real \<Rightarrow> point option list" where
  \<comment> \<open>lines 307-311\<close>
  "zoom_corners cs altitude = (case cs of (c0, c1, c2, c3) \<Rightarrow>
     (let current_view_area_edge_length = norm2 (vsub c1 c0) * 11.13 * 10000;
          step_change_of_view_zoom =
            0.5 * (altitude - current_view_area_edge_length) / 11.13 / 10000
      in change_corner cs step_change_of_view_zoom))"

definition rotate_corners :: "corners \<Rightarrow> real \<Rightarrow> point option list" where
  \<comment> \<open>lines 326-336, the points \<^verbatim>\<open>rotated_point\<close> in order\<close>
  "rotate_corners cs angle = (case cs of (c0, c1, c2, c3) \<Rightarrow>
     (let mean_im_coords = mean4 cs
      in map (\<lambda>c. Some (vadd mean_im_coords
                          (rotation_anticlock (- angle) (vsub c mean_im_coords))))
             [c0, c1, c2, c3]))"

definition move_view_corners ::
  "corners \<Rightarrow> real \<Rightarrow> real \<Rightarrow> real \<Rightarrow> point \<Rightarrow> point \<Rightarrow> real option
     \<Rightarrow> py_error + corners \<times> real" where
  "move_view_corners cs angle0 distance altitude gps_botm_left gps_top_right
       input_current_direction =
     (let cd = current_direction cs;
          angle = applied_angle cs angle0 input_current_direction
      in case admit gps_botm_left gps_top_right (zoom_corners cs altitude) of
           [z0, z1, z2, z3] \<Rightarrow>
             (case admit gps_botm_left gps_top_right
                     (rotate_corners (z0, z1, z2, z3) angle) of
                [r0, r1, r2, r3] \<Rightarrow>
                  (case admit gps_botm_left gps_top_right
                          (move_view_corner_forward (r0, r1, r2, r3) distance) of
                     [m0, m1, m2, m3] \<Rightarrow>
                       Inr ((m0, m1, m2, m3), fmod (of_int cd + angle) 360)
                   | _ \<Rightarrow> Inr ((r0, r1, r2, r3), fmod (of_int cd + angle) 360))
              | _ \<Rightarrow> Inr ((z0, z1, z2, z3), of_int cd))
         | _ \<Rightarrow> Inr (cs, of_int cd))"

definition all_inside :: "point \<Rightarrow> point \<Rightarrow> point option list \<Rightarrow> bool" where
  \<comment> \<open>every corner a stage produced passes the test of the loop\<close>
  "all_inside bl tr ps =
     list_all (\<lambda>p. case p of None \<Rightarrow> False | Some q \<Rightarrow> inside bl tr q) ps"

subsection \<open>Sample windows\<close>

definition window_east :: corners where
  \<comment> \<open>a 1 by 2 rectangle whose first edge faces the direction of growing index 1\<close>
  "window_east = ((2, 3), (1, 3), (1, 1), (2, 1))"

definition window_wide :: corners where
  "window_wide = ((3, 3), (1, 3), (1, 2), (3, 2))"

definition window_degenerate :: corners where
  \<comment> \<open>the first two corners coincide: the reference edge has length zero\<close>
  "window_degenerate = ((1, 3), (1, 3), (0, 1), (2, 1))"

definition drift :: "corners \<Rightarrow> real option \<Rightarrow> bool" where
  \<comment> \<open>the test of line 302\<close>
  "drift cs input_current_direction =
     (case input_current_direction of None \<Rightarrow> False
      | Some icd \<Rightarrow> \<bar>icd - of_int (current_direction cs)\<bar> > 2)"

section \<open>Python values and the geometry library\<close>

text \<open>
  The action slot of the oracle holds values of different Python types in the course of
  \<^verbatim>\<open>teacher_action\<close>: the string of the initialiser, a float, a numpy array of two
  components. \<open>PyInt\<close> is the type the guard of line 611 compares with.
\<close>

datatype slot = PyStr string | PyFloat real | PyArr point | PyInt int

datatype py_type = TStr | TFloat | TNdarray | TInt

fun type_of :: "slot \<Rightarrow> py_type" where
  "type_of (PyStr s) = TStr"
| "type_of (PyFloat x) = TFloat"
| "type_of (PyArr p) = TNdarray"
| "type_of (PyInt k) = TInt"

text \<open>
  The polygon operations are those of the library shapely, which is not part of the
  repository. They are read as the plane geometry they compute. A region is a set of
  points. \<^verbatim>\<open>Polygon(a).convex_hull\<close> is the convex hull of the corners of \<open>a\<close>,
  \<^verbatim>\<open>MultiPoint(ps).convex_hull\<close> the convex hull of the points of \<open>ps\<close>;
  \<^verbatim>\<open>p.intersects(q)\<close> says that the two regions have a point in common, and
  \<^verbatim>\<open>p.intersection(q)\<close> is the region of the common points. What the library
  makes of a region is a parameter of the model: \<open>region_area\<close> is the value of
  \<^verbatim>\<open>.area\<close>, \<open>topological_error p q\<close> says that \<^verbatim>\<open>p.intersection(q)\<close> raises
  \<^verbatim>\<open>TopologicalError\<close>, and \<open>line_intersection w l\<close> is
  \<^verbatim>\<open>Polygon(w).intersection(LineString(l))\<close>.
\<close>

definition is_convex :: "point set \<Rightarrow> bool" where
  "is_convex S =
     (\<forall>x \<in> S. \<forall>y \<in> S. \<forall>u. 0 \<le> u \<and> u \<le> 1 \<longrightarrow> vadd (vscale x (1 - u)) (vscale y u) \<in> S)"

definition convex_hull :: "point set \<Rightarrow> point set" where
  \<comment> \<open>the least convex set that contains the points\<close>
  "convex_hull S = \<Inter> {T. is_convex T \<and> S \<subseteq> T}"

datatype geometry = LineString "point list" | Multi "point list list" | PointG point

record shapely =
  region_area :: "point set \<Rightarrow> real"
  topological_error :: "point set \<Rightarrow> point set \<Rightarrow> bool"
  line_intersection :: "corners \<Rightarrow> point list \<Rightarrow> py_error + geometry"

definition points :: "corners \<Rightarrow> point list" where
  "points cs = (case cs of (c0, c1, c2, c3) \<Rightarrow> [c0, c1, c2, c3])"

section \<open>The progress value\<close>

definition compute_iou :: "shapely \<Rightarrow> corners \<Rightarrow> corners \<Rightarrow> py_error + real" where
  \<comment> \<open>lines 38-70; the assignment of line 61 is overwritten by line 63, whose division
      of Python floats raises when the hull area is zero\<close>
  "compute_iou sh a b =
     (let poly1 = convex_hull (set (points a));
          poly2 = convex_hull (set (points b));
          union_poly = points a @ points b
      in if poly1 \<inter> poly2 = {} then Inr 0
         else if topological_error sh poly1 poly2 then Inr 0
         else (let inter_area = region_area sh (poly1 \<inter> poly2);
                   union_area = region_area sh (convex_hull (set union_poly))
               in if union_area = 0 then Inl ZeroDivisionError
                  else Inr (inter_area / union_area)))"

section \<open>The oracle\<close>

datatype feedback = Teacher | Student | Invalid

record ob =
  gt_path_corners :: "corners list"
  gps_botm_left :: point
  gps_top_right :: point

fun closest_loop ::
  "point \<Rightarrow> (nat \<times> corners) list \<Rightarrow> real \<times> nat option \<Rightarrow> real \<times> nat option" where
  \<comment> \<open>lines 378-383, over the pairs (j, gt_path_corners[j]) in the order of the loop\<close>
  "closest_loop current_pos [] st = st"
| "closest_loop current_pos ((j, g) # rest) (min_dis, closest_step_index) =
     (let dis_to_current = norm2 (vsub (mean4 g) current_pos)
      in if dis_to_current + 0.00001 < min_dis
         then closest_loop current_pos rest (dis_to_current, Some j)
         else closest_loop current_pos rest (min_dis, closest_step_index))"

definition coords_student :: "geometry \<Rightarrow> py_error + point list" where
  \<comment> \<open>\<^verbatim>\<open>list(g.coords)\<close>: a geometry of several parts has no coordinate sequence\<close>
  "coords_student g =
     (case g of LineString ps \<Rightarrow> Inr ps
      | PointG p \<Rightarrow> Inr [p]
      | Multi pss \<Rightarrow> Inl NotImplementedError)"

definition coords_teacher :: "geometry \<Rightarrow> py_error + point list" where
  \<comment> \<open>lines 403-408: the coordinates of a line, else those of the parts in order;
      a point is not iterable\<close>
  "coords_teacher g =
     (case g of LineString ps \<Rightarrow> Inr ps
      | Multi pss \<Rightarrow> Inr (concat pss)
      | PointG p \<Rightarrow> Inl TypeError)"

definition target_line ::
  "shapely \<Rightarrow> feedback \<Rightarrow> corners \<Rightarrow> point \<Rightarrow> corners list \<Rightarrow> py_error + point list" where
  \<comment> \<open>lines 395-415, the value of \<^verbatim>\<open>intersection_line\<close>\<close>
  "target_line sh fb polygon current_pos gt =
     (let direct = [current_pos, mean4 (last gt)]
      in if fb = Student
         then (case line_intersection sh polygon direct of
                 Inl e \<Rightarrow> Inl e | Inr g \<Rightarrow> coords_student g)
         else (case line_intersection sh polygon (map mean4 gt) of
                 Inl e \<Rightarrow> Inl e
               | Inr g \<Rightarrow>
                   (case coords_teacher g of
                      Inl e \<Rightarrow> Inl e
                    | Inr intersection_line \<Rightarrow>
                        if intersection_line = []
                        then (case line_intersection sh polygon direct of
                                Inl e \<Rightarrow> Inl e | Inr g' \<Rightarrow> coords_student g')
                        else Inr intersection_line)))"

fun nearest_scan :: "point \<Rightarrow> point list \<Rightarrow> real \<times> slot \<Rightarrow> real \<times> slot" where
  \<comment> \<open>lines 421-426 on the pair (min_distance, teacher_a[i][0])\<close>
  "nearest_scan goal [] st = st"
| "nearest_scan goal (x # xs) (min_distance, target) =
     (let d = norm2 (vsub x goal)
      in if d < min_distance then nearest_scan goal xs (d, PyArr x)
         else nearest_scan goal xs (min_distance, target))"

definition target_point :: "point \<Rightarrow> point list \<Rightarrow> slot" where
  \<comment> \<open>lines 367 and 420-426: the slot after the loop, from its initial value\<close>
  "target_point goal intersection_line = snd (nearest_scan goal intersection_line (1, PyStr ''0''))"

definition solve2 ::
  "real \<Rightarrow> real \<Rightarrow> real \<Rightarrow> real \<Rightarrow> real \<Rightarrow> real \<Rightarrow> py_error + point" where
  \<comment> \<open>\<^verbatim>\<open>np.linalg.solve\<close> of the system [[a11, a12], [a21, a22]] r = [b1, b2]\<close>
  "solve2 a11 a12 a21 a22 b1 b2 =
     (let det = a11 * a22 - a12 * a21
      in if det = 0 then Inl LinAlgError
         else Inr ((b1 * a22 - a12 * b2) / det, (a11 * b2 - a21 * b1) / det))"

definition unclamped_ratio :: "corners \<Rightarrow> slot \<Rightarrow> py_error + point" where
  \<comment> \<open>lines 447-455; subtracting an array from the string \<^verbatim>\<open>'0'\<close> raises\<close>
  "unclamped_ratio cs target = (case cs of (c0, c1, c2, c3) \<Rightarrow>
     (case target of
        PyArr x \<Rightarrow>
          (let current_pos = mean4 cs;
               net_next_pos = vscale (vsub x current_pos) 100000;
               ny = vscale (vsub (midpoint2 c0 c1) current_pos) 100000;
               nx = vscale (vsub (midpoint2 c1 c2) current_pos) 100000;
               net_y = (of_int (py_round (fst ny)), of_int (py_round (snd ny)));
               net_x = (of_int (py_round (fst nx)), of_int (py_round (snd nx)))
           in solve2 (fst net_x) (fst net_y) (snd net_x) (snd net_y)
                (fst net_next_pos) (snd net_next_pos))
      | _ \<Rightarrow> Inl TypeError))"

definition clamp_ratio :: "point \<Rightarrow> point" where
  \<comment> \<open>lines 460-462, and 589-591 for the prediction\<close>
  "clamp_ratio r =
     (let m = max (max \<bar>fst r\<bar> \<bar>snd r\<bar>) 1 in (fst r / m, snd r / m))"

definition teacher_sample ::
  "shapely \<Rightarrow> feedback \<Rightarrow> ob \<Rightarrow> bool \<Rightarrow> corners \<Rightarrow> nat option
     \<Rightarrow> py_error + (slot \<times> slot) \<times> real \<times> nat option" where
  \<comment> \<open>one round of the loop of lines 369-464; the last component is the variable
      \<^verbatim>\<open>closest_step_index\<close>, which survives from one sample to the next\<close>
  "teacher_sample sh fb o_i ended_i cs closest0 =
     (let gt = gt_path_corners o_i; current_pos = mean4 cs
      in if gt = [] then Inl IndexError
         else (case compute_iou sh cs (last gt) of
                 Inl e \<Rightarrow> Inl e
               | Inr progress \<Rightarrow>
                  (case snd (closest_loop current_pos (rev (zip [0..<length gt] gt))
                               (1000, closest0)) of
                     None \<Rightarrow> Inl NameError
                   | Some k \<Rightarrow>
                      if length gt \<le> k then Inl IndexError
                      else (case gt ! k of (g0, g1, g2, g3) \<Rightarrow>
                        (let altitude =
                               (norm2 (vsub g0 g1) * 11.13 * 10000 - 40) / (400 - 40)
                         in if ended_i \<or> progress > 0.5
                            then Inr ((PyArr (0, 0), PyFloat altitude), progress, Some k)
                            else (case target_line sh fb cs current_pos gt of
                                    Inl e \<Rightarrow> Inl e
                                  | Inr intersection_line \<Rightarrow>
                                     (case unclamped_ratio cs
                                             (target_point (mean4 (last gt)) intersection_line) of
                                        Inl e \<Rightarrow> Inl e
                                      | Inr r \<Rightarrow>
                                          Inr ((PyArr (clamp_ratio r), PyFloat altitude),
                                               progress, Some k))))))))"

fun teacher_loop ::
  "shapely \<Rightarrow> feedback \<Rightarrow> (ob \<times> bool \<times> corners) list \<Rightarrow> nat option
     \<Rightarrow> py_error + (slot \<times> slot) list \<times> real list" where
  "teacher_loop sh fb [] closest = Inr ([], [])"
| "teacher_loop sh fb ((o_i, ended_i, cs) # rest) closest =
     (case teacher_sample sh fb o_i ended_i cs closest of
        Inl e \<Rightarrow> Inl e
      | Inr (a, p, closest') \<Rightarrow>
          (case teacher_loop sh fb rest closest' of
             Inl e \<Rightarrow> Inl e
           | Inr (as, ps) \<Rightarrow> Inr (a # as, p # ps)))"

definition teacher_action ::
  "shapely \<Rightarrow> feedback \<Rightarrow> (ob \<times> bool \<times> corners) list
     \<Rightarrow> py_error + (slot \<times> slot) list \<times> real list" where
  \<comment> \<open>the arguments \<^verbatim>\<open>obs\<close>, \<^verbatim>\<open>ended\<close> and \<^verbatim>\<open>corners\<close> sample by sample\<close>
  "teacher_action sh fb samples = teacher_loop sh fb samples None"

definition loss_guard :: "slot \<Rightarrow> bool" where
  \<comment> \<open>line 611: \<^verbatim>\<open>type(target[i][0]) != type(-100)\<close>\<close>
  "loss_guard s = (type_of s \<noteq> TInt)"

subsection \<open>A sample run of the oracle\<close>

definition window_goal :: corners where
  \<comment> \<open>\<open>window_east\<close> moved by 3/2 along index 1\<close>
  "window_goal = ((2, 9 / 2), (1, 9 / 2), (1, 5 / 2), (2, 5 / 2))"

definition shapely_east_goal :: shapely where
  \<comment> \<open>the answers of the library for \<open>window_east\<close> and \<open>window_goal\<close>: the
      hulls overlap in the rectangle from (1, 5/2) to (2, 3), of area 1/2, which does
      not hold the corner (1, 1); the hull of the eight corners is the rectangle from
      (1, 1) to (2, 9/2), of area 7/2; the segment from the centroid (3/2, 2) to the
      centroid (3/2, 7/2) leaves \<open>window_east\<close> at (3/2, 3)\<close>
  "shapely_east_goal =
     \<lparr> region_area = (\<lambda>S. if (1, 1) \<in> S then 7 / 2 else 1 / 2),
       topological_error = (\<lambda>p q. False),
       line_intersection = (\<lambda>w l. Inr (LineString [(3 / 2, 2), (3 / 2, 3)])) \<rparr>"

definition ob_east_goal :: ob where
  "ob_east_goal =
     \<lparr> gt_path_corners = [window_east, window_goal],
       gps_botm_left = (0, 0), gps_top_right = (5, 5) \<rparr>"




section \<open>The rollout\<close>

text \<open>
  A loss value is a scalar tensor. Its arithmetic is read on the reals, with one more
  value \<open>NaN\<close> that every operation propagates and that is the only value different
  from itself.
\<close>

datatype fnum = Num real | NaN

fun fadd :: "fnum \<Rightarrow> fnum \<Rightarrow> fnum" where
  "fadd (Num a) (Num b) = Num (a + b)"
| "fadd _ _ = NaN"

fun fscale :: "real \<Rightarrow> fnum \<Rightarrow> fnum" where
  "fscale c (Num a) = Num (c * a)"
| "fscale c NaN = NaN"

fun is_nan :: "fnum \<Rightarrow> bool" where
  \<comment> \<open>the test \<^verbatim>\<open>x != x\<close>\<close>
  "is_nan NaN = True"
| "is_nan (Num a) = False"

text \<open>
  The state of one sample: its observation, its entries of the arrays \<^verbatim>\<open>ended\<close>,
  \<^verbatim>\<open>current_view_corners\<close> and \<^verbatim>\<open>current_directions\<close>, and the lists of its
  trajectory record \<^verbatim>\<open>traj[i]\<close>.
\<close>

record sample =
  obs_i :: ob
  ended :: bool
  view_corners :: corners
  view_direction :: real
  actions :: "(point \<times> real) list"
  gt_actions :: "(slot \<times> slot) list"
  gt_progress :: "real list"
  progress :: "real list"
  path_corners :: "(corners \<times> real) list"

text \<open>
  What the rollout receives from outside the file: the row of the policy output for a
  step and a sample, the values of the loss functions, the next observation of the
  environment, and whether the environment is a blind test set (then there is no
  ground truth).
\<close>

record collaborators =
  vln_model :: "nat \<Rightarrow> sample list \<Rightarrow> nat \<Rightarrow> real \<times> real \<times> real \<times> real"
  regression :: "nat \<Rightarrow> nat \<Rightarrow> real \<times> real \<times> real \<times> real \<Rightarrow> slot \<times> slot \<Rightarrow> real
                   \<Rightarrow> fnum \<times> fnum \<times> fnum \<times> fnum"
  bbox_losses :: "nat \<Rightarrow> sample list \<Rightarrow> fnum \<times> fnum \<times> fnum"
  nss :: "nat \<Rightarrow> nat \<Rightarrow> fnum option"
  get_obs :: "nat \<Rightarrow> corners list \<Rightarrow> real list \<Rightarrow> ob"
  blind :: bool
  geometry_lib :: shapely

record rollout_state =
  samples :: "sample list"
  ml_loss :: fnum
  nan_log :: "string list"

definition add_regression ::
  "fnum \<times> string list \<Rightarrow> slot \<Rightarrow> fnum \<times> fnum \<times> fnum \<times> fnum \<Rightarrow> fnum \<times> string list" where
  \<comment> \<open>lines 611-619 for one sample\<close>
  "add_regression st target0 terms = (case st of (ml, msgs) \<Rightarrow>
     (case terms of (t1, t2, t3, t4) \<Rightarrow>
        if loss_guard target0
        then (let ml' = fadd (fadd (fadd (fadd ml t1) t2) t3) t4
              in (ml', if is_nan ml' then msgs @ [''0''] else msgs))
        else (ml, msgs)))"

definition add_bbox :: "fnum \<times> string list \<Rightarrow> fnum \<times> fnum \<times> fnum \<Rightarrow> fnum \<times> string list" where
  \<comment> \<open>lines 647-649\<close>
  "add_bbox st terms = (case st of (ml, msgs) \<Rightarrow>
     (case terms of (loss_cls, loss_f1, loss_iou) \<Rightarrow>
        (let ml' = fadd ml (fscale 0.25
                     (fadd (fadd (fscale 1 loss_cls) (fscale 3 loss_f1)) (fscale 1.5 loss_iou)))
         in (ml', if is_nan ml' then msgs @ [''box''] else msgs))))"

definition add_nss :: "fnum \<times> string list \<Rightarrow> real \<Rightarrow> fnum option \<Rightarrow> fnum \<times> string list" where
  \<comment> \<open>lines 655-660; \<open>None\<close>: the ground-truth saliency sums to nothing\<close>
  "add_nss st nss_w term = (case st of (ml, msgs) \<Rightarrow>
     (case term of
        None \<Rightarrow> (ml, msgs)
      | Some nss_loss \<Rightarrow>
          if is_nan nss_loss then (ml, msgs @ [''1''])
          else (fadd ml (fscale nss_w nss_loss), msgs)))"

definition step_losses ::
  "collaborators \<Rightarrow> real \<Rightarrow> nat \<Rightarrow> sample list \<Rightarrow> (real \<times> real \<times> real \<times> real) list
     \<Rightarrow> (slot \<times> slot) list \<Rightarrow> real list \<Rightarrow> fnum \<times> string list \<Rightarrow> fnum \<times> string list" where
  \<comment> \<open>lines 609-660 of one step\<close>
  "step_losses c nss_w t xs outs target gtp st =
     (let st1 = foldl (\<lambda>st i. add_regression st (fst (target ! i))
                                 (regression c t i (outs ! i) (target ! i) (gtp ! i)))
                      st [0..<length xs];
          st2 = add_bbox st1 (bbox_losses c t xs)
      in foldl (\<lambda>st i. add_nss st nss_w (nss c t i)) st2 [0..<length xs])"

definition clip01 :: "real \<Rightarrow> real" where
  "clip01 x = min 1 (max 0 x)"

definition atan2 :: "real \<Rightarrow> real \<Rightarrow> real" where
  \<comment> \<open>\<^verbatim>\<open>math.atan2(y, x)\<close>\<close>
  "atan2 y x =
     (if 0 < x then arctan (y / x)
      else if x < 0 \<and> 0 \<le> y then arctan (y / x) + pi
      else if x < 0 then arctan (y / x) - pi
      else if 0 < y then pi / 2 else if y < 0 then - (pi / 2) else 0)"

definition log_sample ::
  "point \<times> real \<Rightarrow> ((slot \<times> slot) \<times> real) option \<Rightarrow> real \<Rightarrow> sample \<Rightarrow> sample" where
  \<comment> \<open>lines 686-691\<close>
  "log_sample a gt raw x =
     (if \<not> ended x
      then x\<lparr> actions := actions x @ [a],
              gt_actions := (case gt of None \<Rightarrow> gt_actions x
                             | Some (tg, gp) \<Rightarrow> gt_actions x @ [tg]),
              gt_progress := (case gt of None \<Rightarrow> gt_progress x
                              | Some (tg, gp) \<Rightarrow> gt_progress x @ [gp]),
              progress := progress x @ [raw] \<rparr>
      else x)"

definition interact_sample ::
  "nat \<Rightarrow> nat \<Rightarrow> slot \<times> slot \<Rightarrow> real \<Rightarrow> sample \<Rightarrow> py_error + sample" where
  \<comment> \<open>lines 706-732 for one sample; the two tests of the progress have the same effect\<close>
  "interact_sample max_action_len t a_t prog x =
     (if prog > 0.5 then Inr (x\<lparr>ended := True\<rparr>)
      else if int t = int max_action_len - 1 then Inr (x\<lparr>ended := True\<rparr>)
      else (case a_t of
              (PyArr a, PyFloat al) \<Rightarrow>
                (case view_corners x of (c0, c1, c2, c3) \<Rightarrow>
                  (let a_direction = fmod ((atan2 (fst a) (snd a) / 3.14159 + 2) / 2) 1;
                       a_distance = norm2 a * (norm2 (vsub c0 c1) / 2)
                   in (case move_view_corners (view_corners x)
                               (of_int (py_round (a_direction * 360))) a_distance
                               (of_int (py_round (al * 360)) + 40)
                               (gps_botm_left (obs_i x)) (gps_top_right (obs_i x))
                               (Some (view_direction x)) of
                         Inl e \<Rightarrow> Inl e
                       | Inr (cs, d) \<Rightarrow> Inr (x\<lparr>view_corners := cs, view_direction := d\<rparr>))))
            | _ \<Rightarrow> Inl TypeError))"

definition save_sample :: "sample \<Rightarrow> sample" where
  \<comment> \<open>lines 736-737\<close>
  "save_sample x =
     (if \<not> ended x
      then x\<lparr>path_corners := path_corners x @ [(view_corners x, view_direction x)]\<rparr>
      else x)"

fun collect :: "('e + 'a) list \<Rightarrow> 'e + 'a list" where
  \<comment> \<open>the results of a loop that the first exception leaves\<close>
  "collect [] = Inr []"
| "collect (Inl e # rs) = Inl e"
| "collect (Inr x # rs) = (case collect rs of Inl e \<Rightarrow> Inl e | Inr xs \<Rightarrow> Inr (x # xs))"

definition log_all ::
  "point list \<Rightarrow> real list \<Rightarrow> ((slot \<times> slot) list \<times> real list) option \<Rightarrow> real list
     \<Rightarrow> sample list \<Rightarrow> sample list" where
  \<comment> \<open>lines 685-691 over the batch\<close>
  "log_all ratios alts gt raw xs =
     map (\<lambda>i. log_sample (ratios ! i, alts ! i)
                 (case gt of None \<Rightarrow> None
                  | Some (target, gtp) \<Rightarrow> Some (target ! i, gtp ! i))
                 (raw ! i) (xs ! i)) [0..<length xs]"

definition advance ::
  "collaborators \<Rightarrow> nat \<Rightarrow> nat \<Rightarrow> (slot \<times> slot) list \<Rightarrow> real list \<Rightarrow> sample list
     \<Rightarrow> fnum \<times> string list \<Rightarrow> py_error + rollout_state" where
  \<comment> \<open>lines 705-743: the samples interact with the simulator, their new windows are
      saved, and the environment delivers the next observations\<close>
  "advance c max_action_len t a_t pred_progress_t logged st =
     (case collect (map (\<lambda>i. interact_sample max_action_len t (a_t ! i)
                                 (pred_progress_t ! i) (logged ! i))
                        [0..<length logged]) of
        Inl e \<Rightarrow> Inl e
      | Inr moved \<Rightarrow>
         (let saved = map save_sample moved;
              cs = map view_corners saved;
              ds = map view_direction saved
          in Inr \<lparr> samples = map (\<lambda>i. (saved ! i)\<lparr>obs_i := get_obs c i cs ds\<rparr>)
                                  [0..<length logged],
                   ml_loss = fst st, nan_log = snd st \<rparr>))"

definition rollout_step ::
  "collaborators \<Rightarrow> feedback \<Rightarrow> nat \<Rightarrow> real \<Rightarrow> nat \<Rightarrow> rollout_state
     \<Rightarrow> py_error + rollout_state" where
  \<comment> \<open>the body of the loop of line 534, up to the test of line 746\<close>
  "rollout_step c fb max_action_len nss_w t s =
     (let xs = samples s; n = length xs;
          outs = map (vln_model c t xs) [0..<n];
          ratios = map (\<lambda>(rx, ry, al, pg). clamp_ratio (rx, ry)) outs;
          alts = map (\<lambda>(rx, ry, al, pg). clip01 al) outs;
          progs = map (\<lambda>(rx, ry, al, pg). clip01 pg) outs;
          raw = map (\<lambda>(rx, ry, al, pg). pg) outs
      in case (if blind c then Inr None
               else (case teacher_action (geometry_lib c) fb
                            (map (\<lambda>x. (obs_i x, ended x, view_corners x)) xs) of
                       Inl e \<Rightarrow> Inl e | Inr g \<Rightarrow> Inr (Some g))) of
           Inl e \<Rightarrow> Inl e
         | Inr gt \<Rightarrow>
            (let st = (case gt of
                         None \<Rightarrow> (ml_loss s, nan_log s)
                       | Some (target, gtp) \<Rightarrow>
                           step_losses c nss_w t xs outs target gtp (ml_loss s, nan_log s));
                 logged = log_all ratios alts gt raw xs
             in case (case fb of
                        Teacher \<Rightarrow> (case gt of None \<Rightarrow> Inl NameError
                                     | Some (target, gtp) \<Rightarrow> Inr (target, gtp))
                      | Student \<Rightarrow>
                          Inr (map (\<lambda>i. (PyArr (ratios ! i), PyFloat (alts ! i))) [0..<n],
                               progs)
                      | Invalid \<Rightarrow> Inl SystemExit) of
                  Inl e \<Rightarrow> Inl e
                | Inr (a_t, pred_progress_t) \<Rightarrow>
                    advance c max_action_len t a_t pred_progress_t logged st))"

function rollout_loop ::
  "collaborators \<Rightarrow> feedback \<Rightarrow> nat \<Rightarrow> real \<Rightarrow> nat \<Rightarrow> rollout_state
     \<Rightarrow> py_error + nat \<times> rollout_state" where
  \<comment> \<open>the loop of line 534 from step \<open>t\<close> on; the result carries the number of
      iterations that were started\<close>
  "rollout_loop c fb max_action_len nss_w t s =
     (if t < max_action_len
      then (case rollout_step c fb max_action_len nss_w t s of
              Inl e \<Rightarrow> Inl e
            | Inr s' \<Rightarrow>
                if list_all ended (samples s') then Inr (Suc t, s')
                else rollout_loop c fb max_action_len nss_w (Suc t) s')
      else Inr (t, s))"
  by pat_completeness auto
termination
  by (relation "measure (\<lambda>(c, fb, max_action_len, nss_w, t, s). max_action_len - t)") auto

declare rollout_loop.simps [simp del]

definition init_sample :: "ob \<Rightarrow> real \<Rightarrow> py_error + sample" where
  \<comment> \<open>lines 501-514; the first reference window is the start\<close>
  "init_sample o_i starting_angle =
     (case gt_path_corners o_i of
        [] \<Rightarrow> Inl IndexError
      | g # gs \<Rightarrow>
          Inr \<lparr> obs_i = o_i, ended = False, view_corners = g,
                view_direction = starting_angle, actions = [], gt_actions = [],
                gt_progress = [], progress = [], path_corners = [(g, starting_angle)] \<rparr>)"

definition rollout ::
  "collaborators \<Rightarrow> feedback \<Rightarrow> nat \<Rightarrow> real \<Rightarrow> (ob \<times> real) list
     \<Rightarrow> py_error + nat \<times> rollout_state" where
  "rollout c fb max_action_len nss_w obs =
     (case collect (map (\<lambda>(o_i, a). init_sample o_i a) obs) of
        Inl e \<Rightarrow> Inl e
      | Inr xs \<Rightarrow>
          rollout_loop c fb max_action_len nss_w 0
            \<lparr> samples = xs, ml_loss = Num 0, nan_log = [] \<rparr>)"

definition frozen :: "sample \<Rightarrow> sample \<Rightarrow> bool" where
  \<comment> \<open>the trajectory record of the second state has the entries of the first, no more\<close>
  "frozen x y =
     (actions y = actions x \<and> gt_actions y = gt_actions x \<and> gt_progress y = gt_progress x
      \<and> progress y = progress x \<and> path_corners y = path_corners x)"

subsection \<open>A sample rollout\<close>

definition policy_done :: collaborators where
  \<comment> \<open>a blind environment and a policy that reports the progress 1 at once\<close>
  "policy_done =
     \<lparr> vln_model = (\<lambda>t xs i. (0, 0, 0, 1)),
       regression = (\<lambda>t i out tg gp. (Num 0, Num 0, Num 0, Num 0)),
       bbox_losses = (\<lambda>t xs. (Num 0, Num 0, Num 0)),
       nss = (\<lambda>t i. None),
       get_obs = (\<lambda>i cs ds. ob_east_goal),
       blind = True,
       geometry_lib = shapely_east_goal \<rparr>"

definition sample_start :: sample where
  "sample_start =
     \<lparr> obs_i = ob_east_goal, ended = False, view_corners = window_east,
       view_direction = 90, actions = [], gt_actions = [], gt_progress = [],
       progress = [], path_corners = [(window_east, 90)] \<rparr>"

definition sample_done :: sample where
  "sample_done =
     \<lparr> obs_i = ob_east_goal, ended = True, view_corners = window_east,
       view_direction = 90, actions = [((0, 0), 0)], gt_actions = [], gt_progress = [],
       progress = [1], path_corners = [(window_east, 90)] \<rparr>"

definition state_start :: rollout_state where
  "state_start = \<lparr> samples = [sample_start], ml_loss = Num 0, nan_log = [] \<rparr>"

definition state_done :: rollout_state where
  "state_done = \<lparr> samples = [sample_done], ml_loss = Num 0, nan_log = [] \<rparr>"

subsection \<open>Answers of the geometry library\<close>

definition shapely_east :: shapely where
  \<comment> \<open>the answers of the library for \<open>window_east\<close> alone: a rectangle of area 2\<close>
  "shapely_east =
     \<lparr> region_area = (\<lambda>S. 2),
       topological_error = (\<lambda>p q. False),
       line_intersection = (\<lambda>w l. Inr (LineString [])) \<rparr>"

definition window_apart :: corners where
  \<comment> \<open>\<open>window_east\<close> moved by 3 along index 0: the two do not meet\<close>
  "window_apart = ((5, 3), (4, 3), (4, 1), (5, 1))"

section \<open>Facts about the arithmetic\<close>

lemma py_round_of_int: "py_round (of_int k) = k"
  by (simp add: py_round_def)

lemma fmod_small: "0 \<le> k \<Longrightarrow> k < 360 \<Longrightarrow> fmod (of_int k) 360 = of_int k"
proof -
  assume a: "0 \<le> k" "k < 360"
  have "\<lfloor>(of_int k :: real) / 360\<rfloor> = k div 360"
    using floor_divide_of_int_eq [of k 360, where ?'a = real] by simp
  with a show ?thesis by (simp add: fmod_def)
qed

lemma norm2_zero_iff: "norm2 v = 0 \<longleftrightarrow> v = (0, 0)"
  by (cases v) (simp add: norm2_def sum_power2_eq_zero_iff)

lemma norm2_vsub_zero_iff: "norm2 (vsub p q) = 0 \<longleftrightarrow> p = q"
  by (cases p; cases q) (simp add: norm2_zero_iff vsub_def)

lemma norm2_axis0: "norm2 (x, 0) = \<bar>x\<bar>"
  by (simp add: norm2_def)

lemma norm2_axis1: "norm2 (0, y) = \<bar>y\<bar>"
  by (simp add: norm2_def)

lemma shift_zero: "n \<noteq> 0 \<Longrightarrow> shift (Some c) (vdiv v n) 0 = Some c"
  by (cases c) (simp add: shift_def vdiv_def vadd_def vscale_def)

lemma shift_nan: "shift p (vdiv v 0) change = None"
  by (simp add: shift_def vdiv_def split: option.splits)

lemma shift_None: "shift None u change = None"
  by (simp add: shift_def)

lemma rotation_zero: "rotation_anticlock 0 p = p"
  by (simp add: rotation_anticlock_def)

lemma vadd_vsub: "vadd m (vsub c m) = c"
  by (simp add: vadd_def vsub_def)

section \<open>Facts about the direction\<close>

lemma get_direction_east:
  assumes "fst e = fst s" and "snd s < snd e"
  shows "get_direction s e = 90"
proof -
  have v: "vsub e s = (0, snd e - snd s)" using assms by (simp add: vsub_def)
  have "get_direction s e = fmod 450 360"
    using assms(2) by (simp add: get_direction_def v)
  also have "\<dots> = 90" by (simp add: fmod_def)
  finally show ?thesis .
qed


lemma current_direction_east:
  assumes "fst (midpoint2 c0 c1) = fst (mean4 (c0, c1, c2, c3))"
    and "snd (mean4 (c0, c1, c2, c3)) < snd (midpoint2 c0 c1)"
  shows "current_direction (c0, c1, c2, c3) = 90"
proof -
  have "get_direction (mean4 (c0, c1, c2, c3)) (midpoint2 c0 c1) = of_int 90"
    using get_direction_east [OF assms] by simp
  then have "py_round (get_direction (mean4 (c0, c1, c2, c3)) (midpoint2 c0 c1)) = 90"
    by (simp only: py_round_of_int)
  then show ?thesis by (simp add: current_direction_def)
qed

lemma direction_window_east: "current_direction window_east = 90"
  unfolding window_east_def
  by (rule current_direction_east) (simp_all add: mean4_def midpoint2_def)

lemma direction_window_wide: "current_direction window_wide = 90"
  unfolding window_wide_def
  by (rule current_direction_east) (simp_all add: mean4_def midpoint2_def)

lemma direction_window_degenerate: "current_direction window_degenerate = 90"
  unfolding window_degenerate_def
  by (rule current_direction_east) (simp_all add: mean4_def midpoint2_def)

section \<open>Facts about the bounds loops\<close>

lemma admit_length: "length (admit bl tr ps) \<le> length ps"
  by (induction bl tr ps rule: admit.induct) auto

lemma admit_full: "length (admit bl tr ps) = length ps \<Longrightarrow> all_inside bl tr ps"
proof (induction bl tr ps rule: admit.induct)
  case (3 bl tr p ps)
  then show ?case using admit_length [of bl tr ps]
    by (auto simp: all_inside_def split: if_splits)
qed (auto simp: all_inside_def)

lemma case4_other:
  "length xs \<noteq> 4 \<Longrightarrow> (case xs of [a, b, c, d] \<Rightarrow> f a b c d | _ \<Rightarrow> g) = g"
  by (auto split: list.splits)

lemma admit_short:
  "\<not> all_inside bl tr [p0, p1, p2, p3] \<Longrightarrow> length (admit bl tr [p0, p1, p2, p3]) \<noteq> 4"
  using admit_full [of bl tr "[p0, p1, p2, p3]"] by auto


section \<open>The stages of the view transform\<close>

lemma zoom_fail:
  assumes "\<not> all_inside bl tr (zoom_corners cs alt)"
  shows "move_view_corners cs a d alt bl tr icd = Inr (cs, of_int (current_direction cs))"
proof -
  obtain p0 p1 p2 p3 where z: "zoom_corners cs alt = [p0, p1, p2, p3]"
    by (cases cs) (simp add: zoom_corners_def change_corner_def Let_def)
  have "length (admit bl tr (zoom_corners cs alt)) \<noteq> 4"
    using admit_short assms z by simp
  then show ?thesis
    unfolding move_view_corners_def Let_def by (rule case4_other)
qed

lemma rotate_fail:
  assumes "admit bl tr (zoom_corners cs alt) = [z0, z1, z2, z3]"
    and "\<not> all_inside bl tr (rotate_corners (z0, z1, z2, z3) (applied_angle cs a icd))"
  shows "move_view_corners cs a d alt bl tr icd
           = Inr ((z0, z1, z2, z3), of_int (current_direction cs))"
proof -
  obtain p0 p1 p2 p3
    where r: "rotate_corners (z0, z1, z2, z3) (applied_angle cs a icd) = [p0, p1, p2, p3]"
    by (simp add: rotate_corners_def Let_def)
  have "length (admit bl tr (rotate_corners (z0, z1, z2, z3) (applied_angle cs a icd))) \<noteq> 4"
    using admit_short assms(2) r by simp
  then show ?thesis
    unfolding move_view_corners_def Let_def assms(1) by (simp add: case4_other)
qed

lemma move_fail:
  assumes "admit bl tr (zoom_corners cs alt) = [z0, z1, z2, z3]"
    and "admit bl tr (rotate_corners (z0, z1, z2, z3) (applied_angle cs a icd))
           = [r0, r1, r2, r3]"
    and "\<not> all_inside bl tr (move_view_corner_forward (r0, r1, r2, r3) d)"
  shows "move_view_corners cs a d alt bl tr icd =
     Inr ((r0, r1, r2, r3),
          fmod (of_int (current_direction cs) + applied_angle cs a icd) 360)"
proof -
  obtain p0 p1 p2 p3
    where r: "move_view_corner_forward (r0, r1, r2, r3) d = [p0, p1, p2, p3]"
    by (simp add: move_view_corner_forward_def Let_def)
  have "length (admit bl tr (move_view_corner_forward (r0, r1, r2, r3) d)) \<noteq> 4"
    using admit_short assms(3) r by simp
  then show ?thesis
    unfolding move_view_corners_def Let_def assms(1) by (simp add: assms(2) case4_other)
qed

lemma zoom_identity:
  assumes "c0 \<noteq> c1" "c1 \<noteq> c2" "c2 \<noteq> c3" "c3 \<noteq> c0"
  shows "zoom_corners (c0, c1, c2, c3) (norm2 (vsub c1 c0) * 11.13 * 10000)
           = [Some c0, Some c1, Some c2, Some c3]"
proof -
  have n: "norm2 (vsub c1 c0) \<noteq> 0" "norm2 (vsub c3 c0) \<noteq> 0"
     "norm2 (vsub c2 c1) \<noteq> 0" "norm2 (vsub c2 c3) \<noteq> 0"
    using assms by (auto simp: norm2_vsub_zero_iff)
  show ?thesis
    by (simp add: zoom_corners_def change_corner_def shift_zero n)
qed

lemma rotate_identity:
  "rotate_corners (c0, c1, c2, c3) 0 = [Some c0, Some c1, Some c2, Some c3]"
  by (simp add: rotate_corners_def rotation_zero vadd_vsub)




section \<open>Drift correction\<close>

lemma applied_angle_no_drift: "\<not> drift cs icd \<Longrightarrow> applied_angle cs a icd = a"
  by (simp add: drift_def applied_angle_def split: option.splits)

lemma applied_angle_drift: "drift cs (Some x) \<Longrightarrow> applied_angle cs a (Some x) = a + x"
  by (simp add: drift_def applied_angle_def)

text \<open>
  C2. The claim: when the asserted direction differs from the recomputed one by more
  than 2 degrees, the rotation applied is the requested angle plus the discrepancy
  (asserted minus recomputed). Line 304 adds the asserted direction itself. For the
  window \<open>window_east\<close>, whose recomputed direction is 90, a requested angle 0 and
  the asserted direction 100, the claim gives 0 + (100 - 90) = 10; the code applies 100.
\<close>

theorem drift_adds_asserted_direction:
  "current_direction window_east = 90 \<and> drift window_east (Some 100)
     \<and> applied_angle window_east 0 (Some 100) = 100"
  by (simp add: direction_window_east drift_def applied_angle_def)

section \<open>Degenerate windows\<close>

lemma degenerate_zoom_rejected:
  assumes "c0 = c1 \<or> c1 = c2 \<or> c2 = c3 \<or> c3 = c0"
  shows "\<not> all_inside bl tr (zoom_corners (c0, c1, c2, c3) alt)"
proof -
  have z: "norm2 (vsub p p) = 0" for p by (simp add: norm2_vsub_zero_iff)
  from assms consider "c0 = c1" | "c1 = c2" | "c2 = c3" | "c3 = c0" by blast
  then show ?thesis
  proof cases
    case 1 then show ?thesis
      by (simp add: zoom_corners_def change_corner_def all_inside_def Let_def z shift_nan shift_None)
  next
    case 2 then show ?thesis
      by (simp add: zoom_corners_def change_corner_def all_inside_def Let_def z shift_nan shift_None)
  next
    case 3 then show ?thesis
      by (simp add: zoom_corners_def change_corner_def all_inside_def Let_def z shift_nan shift_None)
  next
    case 4 then show ?thesis
      by (simp add: zoom_corners_def change_corner_def all_inside_def Let_def z shift_nan shift_None)
  qed
qed

text \<open>
  C6, as the code has it. No statement of \<^verbatim>\<open>move_view_corners\<close> raises on a window
  with an edge of length zero: the division by the zero norm yields non-finite corners
  in the zoom stage, these fail the bounds test, and the function returns the input
  window with the direction recomputed from its corners.
\<close>

theorem degenerate_window_returned:
  assumes "c0 = c1 \<or> c1 = c2 \<or> c2 = c3 \<or> c3 = c0"
  shows "move_view_corners (c0, c1, c2, c3) a d alt bl tr icd
           = Inr ((c0, c1, c2, c3), of_int (current_direction (c0, c1, c2, c3)))"
  by (rule zoom_fail) (rule degenerate_zoom_rejected [OF assms])

theorem degenerate_window_returned_witness:
  "move_view_corners ((1, 3), (1, 3), (0, 1), (2, 1)) 0 0 100 (-1, 0) (3, 4) None
     = Inr (((1, 3), (1, 3), (0, 1), (2, 1)), 90)"
  using degenerate_window_returned
          [of "(1, 3)" "(1, 3)" "(0, 1)" "(2, 1)" 0 0 100 "(-1, 0)" "(3, 4)" None]
    direction_window_degenerate
  by (simp add: window_degenerate_def)

text \<open>
  The claim C6 as stated (the transform fails with an error) is false for the window
  \<open>window_degenerate\<close>: the call returns a value.
\<close>

theorem degenerate_window_no_error:
  "move_view_corners window_degenerate 30 1 200 (-1, 0) (3, 4) (Some 90)
     = Inr (window_degenerate, 90)
   \<and> \<not> isl (move_view_corners window_degenerate 30 1 200 (-1, 0) (3, 4) (Some 90))"
proof -
  have "\<not> all_inside (-1, 0) (3, 4) (zoom_corners window_degenerate 200)"
    unfolding window_degenerate_def by (rule degenerate_zoom_rejected) simp
  then have "move_view_corners window_degenerate 30 1 200 (-1, 0) (3, 4) (Some 90)
     = Inr (window_degenerate, of_int (current_direction window_degenerate))"
    by (rule zoom_fail)
  then show ?thesis by (simp add: direction_window_degenerate)
qed

section \<open>Rejection at the bounds\<close>

lemma zoom_window_east_big: "\<not> all_inside (0, 0) (4, 4) (zoom_corners window_east 556500)"
  apply (simp add: window_east_def zoom_corners_def vsub_def norm2_axis0 norm2_axis1 Let_def)
  apply (simp add: change_corner_def vsub_def norm2_axis0 norm2_axis1 vdiv_def shift_def
      vadd_def vscale_def)
  apply (simp add: all_inside_def inside_def)
  done

lemma forward_window_east_far:
  "\<not> all_inside (0, 0) (4, 4) (move_view_corner_forward ((2, 3), (1, 3), (1, 1), (2, 1)) 10)"
  apply (simp add: move_view_corner_forward_def vsub_def norm2_axis0 norm2_axis1 vdiv_def
      shift_def vadd_def vscale_def)
  apply (simp add: all_inside_def inside_def)
  done

lemma zoom_window_east_same:
  "admit (0, 0) (4, 4) (zoom_corners window_east 111300) = [(2, 3), (1, 3), (1, 1), (2, 1)]"
proof -
  have "zoom_corners ((2, 3), (1, 3), (1, 1), (2, 1))
          (norm2 (vsub (1, 3) (2, 3)) * 11.13 * 10000)
    = [Some (2, 3), Some (1, 3), Some (1, 1), Some (2, 1)]"
    by (rule zoom_identity) simp_all
  moreover have "norm2 (vsub (1, 3) (2, 3)) * 11.13 * 10000 = 111300"
    by (simp add: vsub_def norm2_axis0)
  ultimately show ?thesis by (simp add: window_east_def inside_def)
qed

lemma rotate_window_east_zero:
  "admit (0, 0) (4, 4) (rotate_corners ((2, 3), (1, 3), (1, 1), (2, 1)) 0)
     = [(2, 3), (1, 3), (1, 1), (2, 1)]"
  by (simp add: rotate_identity inside_def)

lemma zoom_window_wide_same:
  "admit (0, 1) (4, 16 / 5) (zoom_corners window_wide 222600)
     = [(3, 3), (1, 3), (1, 2), (3, 2)]"
proof -
  have "zoom_corners ((3, 3), (1, 3), (1, 2), (3, 2))
          (norm2 (vsub (1, 3) (3, 3)) * 11.13 * 10000)
    = [Some (3, 3), Some (1, 3), Some (1, 2), Some (3, 2)]"
    by (rule zoom_identity) simp_all
  moreover have "norm2 (vsub (1, 3) (3, 3)) * 11.13 * 10000 = 222600"
    by (simp add: vsub_def norm2_axis0)
  ultimately show ?thesis by (simp add: window_wide_def inside_def)
qed

lemma rotate_window_wide_quarter:
  "\<not> all_inside (0, 1) (4, 16 / 5)
       (rotate_corners ((3, 3), (1, 3), (1, 2), (3, 2)) (90 * pi / 3.14159))"
proof -
  define ang :: real where "ang = 90 * pi / 3.14159"
  have "- ang / 180 * 3.14159 = - (pi / 2)" by (simp add: ang_def)
  then have q: "rotation_anticlock (- ang) p = (- snd p, fst p)" for p
    unfolding rotation_anticlock_def by (simp only:) simp
  have "\<not> all_inside (0, 1) (4, 16 / 5) (rotate_corners ((3, 3), (1, 3), (1, 2), (3, 2)) ang)"
    by (simp add: rotate_corners_def q mean4_def Let_def vsub_def vadd_def all_inside_def
        inside_def)
  then show ?thesis unfolding ang_def .
qed

lemma fmod_minus_ten: "fmod (- 10) 360 = 350"
  by (simp add: fmod_def)

lemma fmod_zero: "fmod 0 360 = 0"
  by (simp add: fmod_def)

text \<open>
  Each stage is all or nothing. If a corner of the zoom stage fails the bounds test, the
  input window is returned with the direction recomputed from its corners. If the zoom
  stage passes and a corner of the rotate stage fails, the zoomed window is returned
  with that same direction. If both pass and a corner of the move stage fails, the
  rotated window is returned; its direction is (recomputed direction + requested angle)
  mod 360 when the drift test of line 302 does not fire. A corner fails the test when it
  is not strictly inside the bounds or is not finite.
\<close>

lemma stage_rejection:
  "(\<not> all_inside bl tr (zoom_corners cs alt) \<longrightarrow>
      move_view_corners cs a d alt bl tr icd = Inr (cs, of_int (current_direction cs)))
   \<and> (admit bl tr (zoom_corners cs alt) = [z0, z1, z2, z3]
        \<and> \<not> all_inside bl tr (rotate_corners (z0, z1, z2, z3) (applied_angle cs a icd)) \<longrightarrow>
      move_view_corners cs a d alt bl tr icd
        = Inr ((z0, z1, z2, z3), of_int (current_direction cs)))
   \<and> (admit bl tr (zoom_corners cs alt) = [z0, z1, z2, z3]
        \<and> admit bl tr (rotate_corners (z0, z1, z2, z3) (applied_angle cs a icd))
            = [r0, r1, r2, r3]
        \<and> \<not> all_inside bl tr (move_view_corner_forward (r0, r1, r2, r3) d) \<longrightarrow>
      (\<exists>dir. move_view_corners cs a d alt bl tr icd = Inr ((r0, r1, r2, r3), dir)
         \<and> (\<not> drift cs icd \<longrightarrow> dir = fmod (of_int (current_direction cs) + a) 360)))"
proof (intro conjI impI)
  assume "\<not> all_inside bl tr (zoom_corners cs alt)"
  then show "move_view_corners cs a d alt bl tr icd = Inr (cs, of_int (current_direction cs))"
    by (rule zoom_fail)
next
  assume "admit bl tr (zoom_corners cs alt) = [z0, z1, z2, z3]
        \<and> \<not> all_inside bl tr (rotate_corners (z0, z1, z2, z3) (applied_angle cs a icd))"
  then show "move_view_corners cs a d alt bl tr icd
        = Inr ((z0, z1, z2, z3), of_int (current_direction cs))"
    by (simp add: rotate_fail)
next
  assume h: "admit bl tr (zoom_corners cs alt) = [z0, z1, z2, z3]
        \<and> admit bl tr (rotate_corners (z0, z1, z2, z3) (applied_angle cs a icd))
            = [r0, r1, r2, r3]
        \<and> \<not> all_inside bl tr (move_view_corner_forward (r0, r1, r2, r3) d)"
  then have "move_view_corners cs a d alt bl tr icd =
     Inr ((r0, r1, r2, r3),
          fmod (of_int (current_direction cs) + applied_angle cs a icd) 360)"
    by (simp add: move_fail)
  then show "\<exists>dir. move_view_corners cs a d alt bl tr icd = Inr ((r0, r1, r2, r3), dir)
         \<and> (\<not> drift cs icd \<longrightarrow> dir = fmod (of_int (current_direction cs) + a) 360)"
    by (simp add: applied_angle_no_drift)
qed

lemma stage_rejection_sample:
  "move_view_corners window_east 0 0 556500 (0, 0) (4, 4) None = Inr (window_east, 90)
   \<and> move_view_corners window_wide (90 * pi / 3.14159) 0 222600 (0, 1) (4, 16 / 5) None
       = Inr (window_wide, 90)
   \<and> move_view_corners window_east 0 10 111300 (0, 0) (4, 4) (Some 89)
       = Inr (window_east, 90)"
proof (intro conjI)
  show "move_view_corners window_east 0 0 556500 (0, 0) (4, 4) None = Inr (window_east, 90)"
    using stage_rejection [where bl = "(0, 0)" and tr = "(4, 4)" and cs = window_east
            and alt = 556500 and a = 0 and d = 0 and icd = None]
      zoom_window_east_big direction_window_east by simp
next
  have a: "applied_angle window_wide (90 * pi / 3.14159) None = 90 * pi / 3.14159"
    by (simp add: applied_angle_def)
  show "move_view_corners window_wide (90 * pi / 3.14159) 0 222600 (0, 1) (4, 16 / 5) None
       = Inr (window_wide, 90)"
    using stage_rejection [where bl = "(0, 1)" and tr = "(4, 16 / 5)" and cs = window_wide
            and alt = 222600 and a = "90 * pi / 3.14159" and d = 0 and icd = None
            and ?z0.0 = "(3, 3)" and ?z1.0 = "(1, 3)" and ?z2.0 = "(1, 2)"
            and ?z3.0 = "(3, 2)"]
      zoom_window_wide_same rotate_window_wide_quarter direction_window_wide
    by (simp only: a) (simp add: window_wide_def)
next
  have a: "applied_angle window_east 0 (Some 89) = 0" "\<not> drift window_east (Some 89)"
    by (simp_all add: applied_angle_def drift_def direction_window_east)
  have "\<exists>dir. move_view_corners window_east 0 10 111300 (0, 0) (4, 4) (Some 89)
                = Inr (((2, 3), (1, 3), (1, 1), (2, 1)), dir)
         \<and> (\<not> drift window_east (Some 89)
              \<longrightarrow> dir = fmod (of_int (current_direction window_east) + 0) 360)"
    using stage_rejection [where bl = "(0, 0)" and tr = "(4, 4)" and cs = window_east
            and alt = 111300 and a = 0 and d = 10 and icd = "Some 89"
            and ?z0.0 = "(2, 3)" and ?z1.0 = "(1, 3)" and ?z2.0 = "(1, 1)"
            and ?z3.0 = "(2, 1)" and ?r0.0 = "(2, 3)" and ?r1.0 = "(1, 3)"
            and ?r2.0 = "(1, 1)" and ?r3.0 = "(2, 1)"]
      zoom_window_east_same rotate_window_east_zero forward_window_east_far
    by (simp only: a) simp
  then show "move_view_corners window_east 0 10 111300 (0, 0) (4, 4) (Some 89)
       = Inr (window_east, 90)"
    using a(2) fmod_small [of 90] direction_window_east
    by (auto simp: window_east_def)
qed

text \<open>
  C1. The claim: a stage whose corners leave the bounds returns the window as it was
  before that stage; for the move stage the direction returned is
  (old direction + requested angle) mod 360. The corner sets are returned as claimed
  (\<open>stage_rejection\<close>). The direction is not, where the drift test fires: line 304
  adds the asserted direction to the angle instead of the discrepancy that line 303
  prints. For \<open>window_east\<close> (recomputed direction 90), requested angle -100
  and asserted direction 100, the zoom and the rotate stage pass, the move stage leaves
  the bounds, and the direction returned is 90: not (100 - 100) mod 360 = 0, the asserted
  direction turned by the requested angle, nor (90 - 100) mod 360 = 350.
\<close>

theorem move_rejection_direction_drift:
  "admit (0, 0) (4, 4) (zoom_corners window_east 111300) = [(2, 3), (1, 3), (1, 1), (2, 1)]
   \<and> admit (0, 0) (4, 4)
        (rotate_corners ((2, 3), (1, 3), (1, 1), (2, 1))
           (applied_angle window_east (- 100) (Some 100)))
      = [(2, 3), (1, 3), (1, 1), (2, 1)]
   \<and> \<not> all_inside (0, 0) (4, 4)
          (move_view_corner_forward ((2, 3), (1, 3), (1, 1), (2, 1)) 10)
   \<and> move_view_corners window_east (- 100) 10 111300 (0, 0) (4, 4) (Some 100)
       = Inr (window_east, 90)
   \<and> fmod (of_int (current_direction window_east) + (- 100)) 360 = 350
   \<and> fmod (100 + (- 100)) 360 = 0"
proof -
  have a: "applied_angle window_east (- 100) (Some 100) = 0"
    by (simp add: applied_angle_def direction_window_east)
  have m: "move_view_corners window_east (- 100) 10 111300 (0, 0) (4, 4) (Some 100)
     = Inr (((2, 3), (1, 3), (1, 1), (2, 1)),
          fmod (of_int (current_direction window_east)
                + applied_angle window_east (- 100) (Some 100)) 360)"
    by (rule move_fail [OF zoom_window_east_same])
       (simp_all only: a rotate_window_east_zero forward_window_east_far not_False_eq_True)
  have "fmod (of_int (current_direction window_east) + 0) 360 = 90"
    using fmod_small [of 90] by (simp add: direction_window_east)
  with m a have "move_view_corners window_east (- 100) 10 111300 (0, 0) (4, 4) (Some 100)
     = Inr (window_east, 90)"
    by (simp add: window_east_def)
  then show ?thesis
    by (simp add: a zoom_window_east_same rotate_window_east_zero forward_window_east_far
        direction_window_east fmod_minus_ten fmod_zero)
qed

section \<open>The clamp of the action ratio\<close>

lemma clamp_divisor_ge_1: "1 \<le> max (max \<bar>fst (r::point)\<bar> \<bar>snd r\<bar>) 1"
  by simp

lemma clamp_ratio_bound:
  "max \<bar>fst (clamp_ratio r)\<bar> \<bar>snd (clamp_ratio r)\<bar> \<le> 1"
proof -
  define m where "m = max (max \<bar>fst r\<bar> \<bar>snd r\<bar>) 1"
  have m: "0 < m" "\<bar>fst r\<bar> \<le> m" "\<bar>snd r\<bar> \<le> m" by (simp_all add: m_def)
  have "\<bar>fst r / m\<bar> \<le> 1" "\<bar>snd r / m\<bar> \<le> 1"
    using m by (simp_all add: abs_divide)
  then have "max \<bar>fst r / m\<bar> \<bar>snd r / m\<bar> \<le> 1"
    by (rule max.boundedI)
  then show ?thesis
    unfolding clamp_ratio_def Let_def m_def by (simp only: fst_conv snd_conv)
qed

lemma clamp_ratio_scale:
  "clamp_ratio r = vscale r (1 / max (max \<bar>fst r\<bar> \<bar>snd r\<bar>) 1)"
  unfolding clamp_ratio_def vscale_def Let_def by (simp only: times_divide_eq_right mult_1_right)

section \<open>The accumulation of the loss\<close>

lemma add_nss_excludes_nan: "add_nss (ml, msgs) nss_w (Some NaN) = (ml, msgs @ [''1''])"
  by (simp add: add_nss_def)

text \<open>
  C7. The claim: a loss term that is NaN is detected, left out of the running objective
  and logged. The code does so for the NSS term only (lines 657-660). A regression term
  of a sample and the bounding-box term are added first and tested afterwards (lines
  613-619 and 647-649): the objective becomes NaN and the occurrence is only printed.
\<close>

theorem nan_term_propagates:
  "add_regression (Num 1, []) (PyArr (0, 0)) (NaN, Num 0, Num 0, Num 0) = (NaN, [''0''])
   \<and> add_bbox (Num 1, []) (NaN, Num 0, Num 0) = (NaN, [''box''])
   \<and> add_nss (Num 1, []) 1 (Some NaN) = (Num 1, [''1''])"
  by (simp add: add_regression_def add_bbox_def add_nss_def loss_guard_def)

section \<open>Facts about regions\<close>

lemma convex_hull_inc: "x \<in> S \<Longrightarrow> x \<in> convex_hull S"
  by (auto simp: convex_hull_def)

lemma convex_hull_minimal: "S \<subseteq> T \<Longrightarrow> is_convex T \<Longrightarrow> convex_hull S \<subseteq> T"
  by (auto simp: convex_hull_def)

lemma is_convex_hull: "is_convex (convex_hull S)"
  unfolding is_convex_def convex_hull_def by blast

lemma convex_hull_segment:
  assumes "x \<in> S" "y \<in> S" "0 \<le> u" "u \<le> 1"
  shows "vadd (vscale x (1 - u)) (vscale y u) \<in> convex_hull S"
  using is_convex_hull [of S] assms convex_hull_inc [of _ S]
  unfolding is_convex_def by blast

lemma convex_hull_nonempty: "x \<in> S \<Longrightarrow> convex_hull S \<noteq> {}"
  using convex_hull_inc by blast

lemma mix_ge:
  fixes a b c u :: real
  assumes "c \<le> a" "c \<le> b" "0 \<le> u" "u \<le> 1"
  shows "c \<le> a * (1 - u) + b * u"
proof -
  have "0 \<le> (a - c) * (1 - u) + (b - c) * u"
    using assms by (intro add_nonneg_nonneg mult_nonneg_nonneg) simp_all
  then show ?thesis by (simp add: algebra_simps)
qed

lemma mix_le:
  fixes a b c u :: real
  assumes "a \<le> c" "b \<le> c" "0 \<le> u" "u \<le> 1"
  shows "a * (1 - u) + b * u \<le> c"
proof -
  have "0 \<le> (c - a) * (1 - u) + (c - b) * u"
    using assms by (intro add_nonneg_nonneg mult_nonneg_nonneg) simp_all
  then show ?thesis by (simp add: algebra_simps)
qed

lemma is_convex_above: "is_convex {p. c \<le> snd p}"
  by (simp add: is_convex_def vadd_def vscale_def mix_ge)

lemma is_convex_right: "is_convex {p. c \<le> fst p}"
  by (simp add: is_convex_def vadd_def vscale_def mix_ge)

lemma is_convex_left: "is_convex {p. fst p \<le> c}"
  by (simp add: is_convex_def vadd_def vscale_def mix_le)

lemma points_window_east: "points window_east = [(2, 3), (1, 3), (1, 1), (2, 1)]"
  by (simp add: points_def window_east_def)

lemma points_window_goal:
  "points window_goal = [(2, 9 / 2), (1, 9 / 2), (1, 5 / 2), (2, 5 / 2)]"
  by (simp add: points_def window_goal_def)

lemma hull_goal_above: "convex_hull (set (points window_goal)) \<subseteq> {p. 5 / 2 \<le> snd p}"
proof (rule convex_hull_minimal)
  show "set (points window_goal) \<subseteq> {p. 5 / 2 \<le> snd p}"
    by (simp add: points_window_goal)
  show "is_convex {p. 5 / 2 \<le> snd p}"
    by (rule is_convex_above)
qed

lemma east_goal_meet:
  "(1, 5 / 2) \<in> convex_hull (set (points window_east))
                \<inter> convex_hull (set (points window_goal))"
proof
  have "vadd (vscale (1, 3) (1 - 1 / 4)) (vscale (1, 1) (1 / 4))
          \<in> convex_hull (set (points window_east))"
    by (rule convex_hull_segment) (simp_all add: points_window_east)
  then show "(1, 5 / 2) \<in> convex_hull (set (points window_east))"
    by (simp add: vadd_def vscale_def)
  show "(1, 5 / 2) \<in> convex_hull (set (points window_goal))"
    by (rule convex_hull_inc) (simp add: points_window_goal)
qed


lemma corner_not_in_goal: "(1, 1) \<notin> convex_hull (set (points window_goal))"
  using hull_goal_above by auto

lemma corner_in_east_goal: "(1, 1) \<in> convex_hull (set (points window_east @ points window_goal))"
  by (rule convex_hull_inc) (simp add: points_window_east)

lemma iou_east_goal: "compute_iou shapely_east_goal window_east window_goal = Inr (1 / 7)"
proof -
  have n: "convex_hull (set (points window_east)) \<inter> convex_hull (set (points window_goal)) \<noteq> {}"
    using east_goal_meet by blast
  have i: "(1, 1) \<notin> convex_hull (set (points window_east))
                      \<inter> convex_hull (set (points window_goal))"
    using corner_not_in_goal by blast
  have a: "region_area shapely_east_goal
             (convex_hull (set (points window_east)) \<inter> convex_hull (set (points window_goal)))
           = 1 / 2"
    using i by (simp add: shapely_east_goal_def)
  have h: "region_area shapely_east_goal
             (convex_hull (set (points window_east @ points window_goal))) = 7 / 2"
    using corner_in_east_goal by (simp add: shapely_east_goal_def)
  have e: "\<not> topological_error shapely_east_goal p q" for p q
    by (simp add: shapely_east_goal_def)
  show ?thesis
    unfolding compute_iou_def Let_def by (simp only: n a h e if_False) simp
qed

section \<open>The slots of the oracle\<close>

lemma teacher_sample_slot:
  assumes "teacher_sample sh fb o_i e cs c0 = Inr ((a, alt), p, k)"
  shows "(e \<or> p > 0.5 \<longrightarrow> a = PyArr (0, 0))
     \<and> (\<not> (e \<or> p > 0.5) \<longrightarrow>
          (\<exists>il r. target_line sh fb cs (mean4 cs) (gt_path_corners o_i) = Inr il
             \<and> unclamped_ratio cs (target_point (mean4 (last (gt_path_corners o_i))) il) = Inr r
             \<and> a = PyArr (clamp_ratio r)))"
  using assms unfolding teacher_sample_def Let_def
  by (auto split: if_splits sum.splits option.splits prod.splits)

lemma teacher_loop_samples:
  "teacher_loop sh fb xs c = Inr (ta, pr) \<Longrightarrow>
     length ta = length xs \<and> length pr = length xs
     \<and> (\<forall>i < length xs. \<exists>c' k.
           teacher_sample sh fb (fst (xs ! i)) (fst (snd (xs ! i))) (snd (snd (xs ! i))) c'
             = Inr (ta ! i, pr ! i, k))"
proof (induction xs arbitrary: c ta pr)
  case Nil
  then show ?case by simp
next
  case (Cons s xs)
  obtain o_i e cs where s: "s = (o_i, e, cs)" by (cases s) auto
  from Cons.prems s obtain a p c1 as ps where
    h: "teacher_sample sh fb o_i e cs c = Inr (a, p, c1)"
       "teacher_loop sh fb xs c1 = Inr (as, ps)" "ta = a # as" "pr = p # ps"
    by (auto split: sum.splits prod.splits)
  from Cons.IH [OF h(2)] have ih:
    "length as = length xs" "length ps = length xs"
    "\<forall>i < length xs. \<exists>c' k.
           teacher_sample sh fb (fst (xs ! i)) (fst (snd (xs ! i))) (snd (snd (xs ! i))) c'
             = Inr (as ! i, ps ! i, k)"
    by auto
  show ?case
  proof (intro conjI allI impI)
    fix i assume "i < length (s # xs)"
    then show "\<exists>c' k. teacher_sample sh fb (fst ((s # xs) ! i))
                 (fst (snd ((s # xs) ! i))) (snd (snd ((s # xs) ! i))) c'
               = Inr (ta ! i, pr ! i, k)"
      using h(1,3,4) s ih(3) by (cases i) auto
  qed (simp_all add: h ih)
qed

lemma teacher_action_sample:
  assumes "teacher_action sh fb xs = Inr (target, gtp)" and "i < length xs"
    and "xs ! i = (o_i, e, cs)"
  shows "\<exists>a alt c' k. target ! i = (a, alt)
           \<and> teacher_sample sh fb o_i e cs c' = Inr ((a, alt), gtp ! i, k)"
proof -
  from teacher_loop_samples [OF assms(1) [unfolded teacher_action_def]] assms(2)
  obtain c' k where
    "teacher_sample sh fb (fst (xs ! i)) (fst (snd (xs ! i))) (snd (snd (xs ! i))) c'
       = Inr (target ! i, gtp ! i, k)"
    by blast
  then show ?thesis using assms(3) by (cases "target ! i") auto
qed

lemma teacher_action_length:
  "teacher_action sh fb xs = Inr (target, gtp) \<Longrightarrow>
     length target = length xs \<and> length gtp = length xs"
  using teacher_loop_samples [of sh fb xs None target gtp] by (simp add: teacher_action_def)

subsection \<open>The sample run\<close>

lemma centre_window_east: "mean4 window_east = (3 / 2, 2)"
  by (simp add: mean4_def window_east_def)

lemma centre_window_goal: "mean4 window_goal = (3 / 2, 7 / 2)"
  by (simp add: mean4_def window_goal_def)

lemma closest_east_goal:
  "closest_loop (3 / 2, 2) (rev (zip [0..<2] [window_east, window_goal])) (1000, c0)
     = (0, Some 0)"
proof -
  have z: "rev (zip [0..<2] [window_east, window_goal]) = [(1, window_goal), (0, window_east)]"
    by (simp add: upt_rec)
  have d: "norm2 (vsub (mean4 window_goal) (3 / 2, 2)) = 3 / 2"
    "norm2 (vsub (mean4 window_east) (3 / 2, 2)) = 0"
    by (simp_all add: centre_window_goal centre_window_east vsub_def norm2_axis1)
  show ?thesis unfolding z by (simp add: d)
qed

lemma line_east_goal:
  "target_line shapely_east_goal Student window_east (3 / 2, 2) [window_east, window_goal]
     = Inr [(3 / 2, 2), (3 / 2, 3)]"
  by (simp add: target_line_def shapely_east_goal_def coords_student_def)

lemma target_east_goal: "target_point (3 / 2, 7 / 2) [(3 / 2, 2), (3 / 2, 3)] = PyArr (3 / 2, 3)"
  by (simp add: target_point_def vsub_def norm2_axis1)

lemma ratio_east_goal: "unclamped_ratio window_east (PyArr (3 / 2, 3)) = Inr (0, 1)"
proof -
  have r: "py_round 0 = 0" "py_round 100000 = 100000" "py_round (- 50000) = - 50000"
    using py_round_of_int [of 0] py_round_of_int [of 100000] py_round_of_int [of "- 50000"]
    by simp_all
  show ?thesis
    unfolding unclamped_ratio_def window_east_def [symmetric]
    apply (simp add: window_east_def mean4_def midpoint2_def vsub_def vscale_def)
    apply (simp add: r solve2_def)
    done
qed

lemma clamp_unit: "clamp_ratio (0, 1) = (0, 1)"
  by (simp add: clamp_ratio_def)

lemma teacher_east_goal_running:
  "teacher_action shapely_east_goal Student [(ob_east_goal, False, window_east)]
     = Inr ([(PyArr (0, 1), PyFloat (5563 / 18))], [1 / 7])"
proof -
  have g: "gt_path_corners ob_east_goal = [window_east, window_goal]"
    by (simp add: ob_east_goal_def)
  have u: "length [window_east, window_goal] = 2" by simp
  have "teacher_sample shapely_east_goal Student ob_east_goal False window_east None
          = Inr ((PyArr (0, 1), PyFloat (5563 / 18)), 1 / 7, Some 0)"
    unfolding teacher_sample_def Let_def g u centre_window_east closest_east_goal
    apply (simp add: iou_east_goal centre_window_goal line_east_goal target_east_goal
        ratio_east_goal clamp_unit)
    apply (simp add: window_east_def vsub_def norm2_axis0)
    done
  then show ?thesis by (simp add: teacher_action_def)
qed

lemma teacher_east_goal_ended:
  "teacher_action shapely_east_goal Student [(ob_east_goal, True, window_east)]
     = Inr ([(PyArr (0, 0), PyFloat (5563 / 18))], [1 / 7])"
proof -
  have g: "gt_path_corners ob_east_goal = [window_east, window_goal]"
    by (simp add: ob_east_goal_def)
  have u: "length [window_east, window_goal] = 2" by simp
  have "teacher_sample shapely_east_goal Student ob_east_goal True window_east None
          = Inr ((PyArr (0, 0), PyFloat (5563 / 18)), 1 / 7, Some 0)"
    unfolding teacher_sample_def Let_def g u centre_window_east closest_east_goal
    apply (simp add: iou_east_goal)
    apply (simp add: window_east_def vsub_def norm2_axis0)
    done
  then show ?thesis by (simp add: teacher_action_def)
qed

text \<open>
  C4. A sample that is not terminal (not ended, progress at most 0.5) receives from
  \<^verbatim>\<open>teacher_action\<close> the solution (rx, ry) of the 2 by 2 system divided by
  max(|rx|, |ry|, 1): both components have magnitude at most 1, and the pair is the
  unclamped pair times the positive factor 1 / max(|rx|, |ry|, 1).
\<close>

theorem oracle_action_clamped:
  assumes "teacher_action sh fb xs = Inr (target, gtp)" and "i < length xs"
    and "xs ! i = (o_i, e, cs)" and "\<not> e" and "\<not> gtp ! i > 0.5"
  shows "\<exists>il r. target_line sh fb cs (mean4 cs) (gt_path_corners o_i) = Inr il
           \<and> unclamped_ratio cs (target_point (mean4 (last (gt_path_corners o_i))) il) = Inr r
           \<and> fst (target ! i) = PyArr (clamp_ratio r)
           \<and> max \<bar>fst (clamp_ratio r)\<bar> \<bar>snd (clamp_ratio r)\<bar> \<le> 1
           \<and> clamp_ratio r = (fst r / max (max \<bar>fst r\<bar> \<bar>snd r\<bar>) 1,
                               snd r / max (max \<bar>fst r\<bar> \<bar>snd r\<bar>) 1)
           \<and> clamp_ratio r = vscale r (1 / max (max \<bar>fst r\<bar> \<bar>snd r\<bar>) 1)
           \<and> 0 < 1 / max (max \<bar>fst r\<bar> \<bar>snd r\<bar>) 1"
proof -
  from teacher_action_sample [OF assms(1,2,3)] obtain a alt c' k where
    t: "target ! i = (a, alt)"
       "teacher_sample sh fb o_i e cs c' = Inr ((a, alt), gtp ! i, k)"
    by blast
  from teacher_sample_slot [OF t(2)] assms(4,5) obtain il r where
    r: "target_line sh fb cs (mean4 cs) (gt_path_corners o_i) = Inr il"
       "unclamped_ratio cs (target_point (mean4 (last (gt_path_corners o_i))) il) = Inr r"
       "a = PyArr (clamp_ratio r)"
    by blast
  have p: "0 < 1 / max (max \<bar>fst r\<bar> \<bar>snd r\<bar>) 1"
    using clamp_divisor_ge_1 [of r] by simp
  have d: "clamp_ratio r = (fst r / max (max \<bar>fst r\<bar> \<bar>snd r\<bar>) 1,
                            snd r / max (max \<bar>fst r\<bar> \<bar>snd r\<bar>) 1)"
    unfolding clamp_ratio_def Let_def ..
  have f: "fst (target ! i) = PyArr (clamp_ratio r)"
    using t(1) r(3) by simp
  from r(1) r(2) f clamp_ratio_bound [of r] d clamp_ratio_scale [of r] p
  show ?thesis by blast
qed

theorem oracle_action_clamped_witness:
  "\<exists>il r. target_line shapely_east_goal Student window_east (mean4 window_east)
             (gt_path_corners ob_east_goal) = Inr il
     \<and> unclamped_ratio window_east
          (target_point (mean4 (last (gt_path_corners ob_east_goal))) il) = Inr r
     \<and> fst ([(PyArr (0, 1), PyFloat (5563 / 18))] ! 0) = PyArr (clamp_ratio r)
     \<and> max \<bar>fst (clamp_ratio r)\<bar> \<bar>snd (clamp_ratio r)\<bar> \<le> 1
     \<and> clamp_ratio r = (fst r / max (max \<bar>fst r\<bar> \<bar>snd r\<bar>) 1,
                         snd r / max (max \<bar>fst r\<bar> \<bar>snd r\<bar>) 1)
     \<and> clamp_ratio r = vscale r (1 / max (max \<bar>fst r\<bar> \<bar>snd r\<bar>) 1)
     \<and> 0 < 1 / max (max \<bar>fst r\<bar> \<bar>snd r\<bar>) 1"
  by (rule oracle_action_clamped [OF teacher_east_goal_running, where e = False]) simp_all

text \<open>
  C10. Whatever \<^verbatim>\<open>teacher_action\<close> returns, the action slot of every sample holds a
  numpy array: the zero array for a sample that has ended or whose progress exceeds 0.5,
  the clamped ratio otherwise. The guard of line 611 is therefore true for every sample,
  and the regression terms are added to the objective for terminal samples as well.
\<close>

theorem oracle_slot_never_int:
  assumes "teacher_action sh fb xs = Inr (target, gtp)"
  shows "length target = length xs
     \<and> (\<forall>i < length xs.
           type_of (fst (target ! i)) = TNdarray
         \<and> loss_guard (fst (target ! i))
         \<and> (fst (snd (xs ! i)) \<or> gtp ! i > 0.5 \<longrightarrow> fst (target ! i) = PyArr (0, 0))
         \<and> (\<forall>ml msgs t1 t2 t3 t4.
               fst (add_regression (ml, msgs) (fst (target ! i)) (t1, t2, t3, t4))
                 = fadd (fadd (fadd (fadd ml t1) t2) t3) t4))"
proof (intro conjI allI impI)
  show "length target = length xs"
    using teacher_action_length [OF assms] by simp
next
  fix i assume i: "i < length xs"
  obtain o_i e cs where x: "xs ! i = (o_i, e, cs)" by (cases "xs ! i") auto
  from teacher_action_sample [OF assms i x] obtain a alt c' k where
    t: "target ! i = (a, alt)"
       "teacher_sample sh fb o_i e cs c' = Inr ((a, alt), gtp ! i, k)"
    by blast
  from teacher_sample_slot [OF t(2)] have
    s: "e \<or> gtp ! i > 0.5 \<longrightarrow> a = PyArr (0, 0)" "\<exists>q. a = PyArr q"
    by auto
  from s(2) t(1) show ty: "type_of (fst (target ! i)) = TNdarray" by auto
  then show g: "loss_guard (fst (target ! i))" by (simp add: loss_guard_def)
  {
    assume "fst (snd (xs ! i)) \<or> gtp ! i > 0.5"
    then show "fst (target ! i) = PyArr (0, 0)" using s(1) t(1) x by simp
  }
  {
    fix ml msgs t1 t2 t3 t4
    show "fst (add_regression (ml, msgs) (fst (target ! i)) (t1, t2, t3, t4))
            = fadd (fadd (fadd (fadd ml t1) t2) t3) t4"
      using g by (simp add: add_regression_def Let_def)
  }
qed

theorem oracle_slot_never_int_witness:
  "teacher_action shapely_east_goal Student [(ob_east_goal, True, window_east)]
     = Inr ([(PyArr (0, 0), PyFloat (5563 / 18))], [1 / 7])
   \<and> type_of (PyArr (0, 0)) = TNdarray
   \<and> loss_guard (PyArr (0, 0))
   \<and> fst (add_regression (Num 1, []) (PyArr (0, 0)) (Num 1, Num 1, Num 1, Num 1)) = Num 5"
proof -
  note t = oracle_slot_never_int [OF teacher_east_goal_ended]
  from t have "type_of (fst ([(PyArr (0, 0), PyFloat (5563 / 18))] ! 0)) = TNdarray"
    and "loss_guard (fst ([(PyArr (0, 0), PyFloat (5563 / 18))] ! 0))"
    and "fst (add_regression (Num 1, []) (fst ([(PyArr (0, 0), PyFloat (5563 / 18))] ! 0))
                (Num 1, Num 1, Num 1, Num 1))
           = fadd (fadd (fadd (fadd (Num 1) (Num 1)) (Num 1)) (Num 1)) (Num 1)"
    by simp_all
  then show ?thesis using teacher_east_goal_ended by simp
qed

section \<open>The choice of the target point\<close>





subsection \<open>A goal farther than the initial minimum\<close>











lemma line_points_in_window:
  "(3 / 2, 2) \<in> convex_hull (set (points window_east))
   \<and> (3 / 2, 3) \<in> convex_hull (set (points window_east))"
proof
  have a: "vadd (vscale (2, 3) (1 - 1 / 2)) (vscale (1, 3) (1 / 2))
          \<in> convex_hull (set (points window_east))"
    by (rule convex_hull_segment) (simp_all add: points_window_east)
  then show t: "(3 / 2, 3) \<in> convex_hull (set (points window_east))"
    by (simp add: vadd_def vscale_def)
  have b: "vadd (vscale (2, 1) (1 - 1 / 2)) (vscale (1, 1) (1 / 2))
          \<in> convex_hull (set (points window_east))"
    by (rule convex_hull_segment) (simp_all add: points_window_east)
  then have u: "(3 / 2, 1) \<in> convex_hull (set (points window_east))"
    by (simp add: vadd_def vscale_def)
  have "vadd (vscale (3 / 2, 3) (1 - 1 / 2)) (vscale (3 / 2, 1) (1 / 2))
          \<in> convex_hull (set (points window_east))"
    using is_convex_hull [of "set (points window_east)"] t u
    unfolding is_convex_def by (meson  order_refl zero_le_one divide_le_eq_1_pos zero_less_numeral one_le_numeral divide_nonneg_nonneg zero_le_numeral)
  then show "(3 / 2, 2) \<in> convex_hull (set (points window_east))"
    by (simp add: vadd_def vscale_def)
qed


section \<open>The rollout loop\<close>

lemma log_sample_ended: "ended (log_sample a gt raw x) = ended x"
  by (simp add: log_sample_def)

lemma log_sample_frozen: "ended x \<Longrightarrow> log_sample a gt raw x = x"
  by (simp add: log_sample_def)

lemma log_sample_path: "path_corners (log_sample a gt raw x) = path_corners x"
  by (simp add: log_sample_def)

lemma interact_sample_keeps:
  assumes "interact_sample k t a p x = Inr y"
  shows "(ended x \<longrightarrow> ended y) \<and> frozen x y"
  using assms unfolding interact_sample_def Let_def frozen_def
  by (auto split: if_splits slot.splits prod.splits sum.splits)

lemma save_sample_ended: "ended (save_sample x) = ended x"
  by (simp add: save_sample_def)

lemma save_sample_frozen: "ended x \<Longrightarrow> save_sample x = x"
  by (simp add: save_sample_def)

lemma save_sample_logs:
  "actions (save_sample x) = actions x \<and> gt_actions (save_sample x) = gt_actions x
   \<and> gt_progress (save_sample x) = gt_progress x \<and> progress (save_sample x) = progress x"
  by (simp add: save_sample_def)

lemma collect_Inr:
  "collect rs = Inr ys \<Longrightarrow> length ys = length rs \<and> (\<forall>i < length rs. rs ! i = Inr (ys ! i))"
proof (induction rs arbitrary: ys rule: collect.induct)
  case 1
  then show ?case by simp
next
  case (2 e rs)
  then show ?case by simp
next
  case (3 x rs)
  from "3.prems" obtain xs where xs: "collect rs = Inr xs" "ys = x # xs"
    by (auto split: sum.splits)
  from "3.IH" [OF xs(1)] xs(2) show ?case
    by (auto simp: nth_Cons split: nat.splits)
qed

lemma sample_step_keeps:
  assumes i: "interact_sample k t a p (log_sample la gt raw x) = Inr y"
  shows "(ended x \<longrightarrow> ended (save_sample y) \<and> frozen x (save_sample y))
       \<and> (ended (save_sample y) \<longrightarrow> path_corners (save_sample y) = path_corners x)"
proof -
  from interact_sample_keeps [OF i]
  have k: "ended (log_sample la gt raw x) \<longrightarrow> ended y" "frozen (log_sample la gt raw x) y"
    by auto
  have p: "path_corners y = path_corners x"
    using k(2) by (simp add: frozen_def log_sample_path)
  show ?thesis
  proof (intro conjI impI)
    assume e: "ended x"
    then have "ended y" using k(1) by (simp add: log_sample_ended)
    then show "ended (save_sample y)" "frozen x (save_sample y)"
      using k(2) e by (simp_all add: save_sample_frozen log_sample_frozen)
  next
    assume "ended (save_sample y)"
    then have "ended y" by (simp add: save_sample_ended)
    then show "path_corners (save_sample y) = path_corners x"
      using p by (simp add: save_sample_frozen)
  qed
qed

lemma advance_samples:
  assumes "advance c k t a_t p logged st = Inr s'"
  shows "length (samples s') = length logged
     \<and> (\<forall>i < length logged. \<exists>y ob'.
           interact_sample k t (a_t ! i) (p ! i) (logged ! i) = Inr y
         \<and> samples s' ! i = (save_sample y)\<lparr>obs_i := ob'\<rparr>)"
proof -
  from assms obtain moved where
    m: "collect (map (\<lambda>i. interact_sample k t (a_t ! i) (p ! i) (logged ! i))
                     [0..<length logged]) = Inr moved"
       "samples s' = map (\<lambda>i. (map save_sample moved ! i)
                            \<lparr>obs_i := get_obs c i (map view_corners (map save_sample moved))
                                        (map view_direction (map save_sample moved))\<rparr>)
                         [0..<length logged]"
    unfolding advance_def Let_def by (auto split: sum.splits)
  from collect_Inr [OF m(1)] have
    c: "length moved = length logged"
       "\<forall>i < length logged.
          interact_sample k t (a_t ! i) (p ! i) (logged ! i) = Inr (moved ! i)"
    by auto
  show ?thesis
  proof (intro conjI allI impI)
    show "length (samples s') = length logged" by (simp add: m(2))
  next
    fix i assume i: "i < length logged"
    have "samples s' ! i = (save_sample (moved ! i))
             \<lparr>obs_i := get_obs c i (map view_corners (map save_sample moved))
                          (map view_direction (map save_sample moved))\<rparr>"
      using i c(1) by (simp add: m(2))
    with c(2) i show "\<exists>y ob'. interact_sample k t (a_t ! i) (p ! i) (logged ! i) = Inr y
         \<and> samples s' ! i = (save_sample y)\<lparr>obs_i := ob'\<rparr>"
      by blast
  qed
qed

lemma log_all_nth:
  "length (log_all ratios alts gt raw xs) = length xs
   \<and> (\<forall>i < length xs. \<exists>la g r. log_all ratios alts gt raw xs ! i = log_sample la g r (xs ! i))"
proof (intro conjI allI impI)
  fix i assume "i < length xs"
  then have "log_all ratios alts gt raw xs ! i
     = log_sample (ratios ! i, alts ! i)
         (case gt of None \<Rightarrow> None | Some (target, gtp) \<Rightarrow> Some (target ! i, gtp ! i))
         (raw ! i) (xs ! i)"
    by (cases gt) (auto simp: log_all_def)
  then show "\<exists>la g r. log_all ratios alts gt raw xs ! i = log_sample la g r (xs ! i)"
    by (intro exI)
qed (simp add: log_all_def)

lemma rollout_step_advance:
  assumes "rollout_step c fb k w t s = Inr s'"
  shows "\<exists>a_t p ratios alts gt raw st.
           advance c k t a_t p (log_all ratios alts gt raw (samples s)) st = Inr s'"
  using assms unfolding rollout_step_def Let_def
  by (auto split: sum.splits option.splits feedback.splits prod.splits if_splits
        simp del: split_paired_Ex) blast+

lemma rollout_step_samples:
  assumes "rollout_step c fb k w t s = Inr s'"
  shows "length (samples s') = length (samples s)
     \<and> (\<forall>i < length (samples s). \<exists>a p la gt raw y ob'.
           interact_sample k t a p (log_sample la gt raw (samples s ! i)) = Inr y
         \<and> samples s' ! i = (save_sample y)\<lparr>obs_i := ob'\<rparr>)"
proof -
  from rollout_step_advance [OF assms] obtain a_t p ratios alts gt raw st where
    a: "advance c k t a_t p (log_all ratios alts gt raw (samples s)) st = Inr s'"
    by blast
  note l = log_all_nth [of ratios alts gt raw "samples s"]
  from advance_samples [OF a] l have
    b: "length (samples s') = length (samples s)"
       "\<forall>i < length (samples s). \<exists>y ob'.
           interact_sample k t (a_t ! i) (p ! i) (log_all ratios alts gt raw (samples s) ! i)
             = Inr y
         \<and> samples s' ! i = (save_sample y)\<lparr>obs_i := ob'\<rparr>"
    by simp_all
  show ?thesis
  proof (intro conjI allI impI)
    fix i assume i: "i < length (samples s)"
    from l i obtain la g r where
      "log_all ratios alts gt raw (samples s) ! i = log_sample la g r (samples s ! i)"
      by blast
    with b(2) i show "\<exists>a p la gt raw y ob'.
           interact_sample k t a p (log_sample la gt raw (samples s ! i)) = Inr y
         \<and> samples s' ! i = (save_sample y)\<lparr>obs_i := ob'\<rparr>"
      by metis
  qed (rule b(1))
qed

lemma frozen_obs: "frozen x (y\<lparr>obs_i := ob'\<rparr>) = frozen x y"
  by (simp add: frozen_def)

lemma frozen_refl: "frozen x x"
  by (simp add: frozen_def)

lemma frozen_trans: "frozen x y \<Longrightarrow> frozen y z \<Longrightarrow> frozen x z"
  by (simp add: frozen_def)

lemma rollout_step_keeps:
  assumes "rollout_step c fb k w t s = Inr s'" and "i < length (samples s)"
  shows "(ended (samples s ! i) \<longrightarrow>
            ended (samples s' ! i) \<and> frozen (samples s ! i) (samples s' ! i))
       \<and> (ended (samples s' ! i) \<longrightarrow>
            path_corners (samples s' ! i) = path_corners (samples s ! i))"
proof -
  from rollout_step_samples [OF assms(1)] assms(2) obtain a p la gt raw y ob' where
    h: "interact_sample k t a p (log_sample la gt raw (samples s ! i)) = Inr y"
       "samples s' ! i = (save_sample y)\<lparr>obs_i := ob'\<rparr>"
    by blast
  from sample_step_keeps [OF h(1)] show ?thesis
    by (simp add: h(2) frozen_obs)
qed

lemma rollout_step_length:
  "rollout_step c fb k w t s = Inr s' \<Longrightarrow> length (samples s') = length (samples s)"
  using rollout_step_samples by blast

lemma rollout_loop_keeps:
  "rollout_loop c fb k w t s = Inr (n, s') \<Longrightarrow> t \<le> k \<Longrightarrow>
     t \<le> n \<and> n \<le> k \<and> length (samples s') = length (samples s)
     \<and> (\<forall>i < length (samples s). ended (samples s ! i) \<longrightarrow>
           ended (samples s' ! i) \<and> frozen (samples s ! i) (samples s' ! i))"
proof (induction c fb k w t s rule: rollout_loop.induct)
  case (1 c fb k w t s)
  show ?case
  proof (cases "t < k")
    case False
    with "1.prems" show ?thesis
      by (simp add: rollout_loop.simps [of c fb k w t s] frozen_refl)
  next
    case True
    from "1.prems"(1) True obtain s1 where
      s1: "rollout_step c fb k w t s = Inr s1"
      by (auto simp: rollout_loop.simps [of c fb k w t s] split: sum.splits)
    note len = rollout_step_length [OF s1]
    show ?thesis
    proof (cases "list_all ended (samples s1)")
      case True
      with "1.prems"(1) \<open>t < k\<close> s1 have "n = Suc t" "s' = s1"
        by (simp_all add: rollout_loop.simps [of c fb k w t s])
      with \<open>t < k\<close> len rollout_step_keeps [OF s1] show ?thesis by auto
    next
      case False
      with "1.prems"(1) \<open>t < k\<close> s1 have
        r: "rollout_loop c fb k w (Suc t) s1 = Inr (n, s')"
        by (simp add: rollout_loop.simps [of c fb k w t s])
      from "1.IH" [OF \<open>t < k\<close> s1 False r] \<open>t < k\<close> have ih:
        "Suc t \<le> n" "n \<le> k" "length (samples s') = length (samples s1)"
        "\<forall>i < length (samples s1). ended (samples s1 ! i) \<longrightarrow>
           ended (samples s' ! i) \<and> frozen (samples s1 ! i) (samples s' ! i)"
        by auto
      show ?thesis
      proof (intro conjI allI impI)
        fix i assume i: "i < length (samples s)" and e: "ended (samples s ! i)"
        from rollout_step_keeps [OF s1 i] e have
          a: "ended (samples s1 ! i)" "frozen (samples s ! i) (samples s1 ! i)" by auto
        from ih(4) i len a(1) have
          b: "ended (samples s' ! i)" "frozen (samples s1 ! i) (samples s' ! i)" by auto
        show "ended (samples s' ! i)" by (rule b(1))
        show "frozen (samples s ! i) (samples s' ! i)" by (rule frozen_trans [OF a(2) b(2)])
      qed (use ih len in simp_all)
    qed
  qed
qed
subsection \<open>The sample rollout\<close>

lemma step_policy_done: "rollout_step policy_done Student 2 0 0 state_start = Inr state_done"
proof -
  have l: "log_all [(0, 0)] [0] None [1] [sample_start]
             = [sample_start\<lparr>actions := [((0, 0), 0)], progress := [1]\<rparr>]"
    by (simp add: log_all_def log_sample_def sample_start_def)
  have a: "advance policy_done 2 0 [(PyArr (0, 0), PyFloat 0)] [1]
             [sample_start\<lparr>actions := [((0, 0), 0)], progress := [1]\<rparr>] (Num 0, [])
           = Inr state_done"
    by (simp add: advance_def interact_sample_def save_sample_def sample_start_def
        sample_done_def state_done_def policy_done_def)
  have c: "clamp_ratio (0, 0) = (0, 0)" "clip01 0 = 0" "clip01 1 = 1"
    by (simp_all add: clamp_ratio_def clip01_def)
  have v: "vln_model policy_done = (\<lambda>t xs i. (0, 0, 0, 1))" "blind policy_done"
    by (simp_all add: policy_done_def)
  show ?thesis
    unfolding rollout_step_def Let_def
    by (simp add: state_start_def v c l a)
qed

lemma loop_policy_done: "rollout_loop policy_done Student 2 0 0 state_start = Inr (1, state_done)"
  by (simp add: rollout_loop.simps [of policy_done Student 2 0 0 state_start] step_policy_done
      state_done_def sample_done_def)

text \<open>
  C8. From any state of the loop of line 534 at a step \<open>t\<close> within the budget
  \<open>k\<close>: the loop starts at most \<open>k\<close> iterations in all; a sample that has ended
  stays ended, and nothing is appended to its trajectory record afterwards; the loop
  returns after the first step that leaves every sample ended; within one step, a
  sample whose flag is set receives no entry of \<^verbatim>\<open>path_corners\<close>.
\<close>

theorem rollout_bounded_and_frozen:
  assumes "rollout_loop c fb k w t s = Inr (n, s')" and "t \<le> k"
  shows "n \<le> k \<and> t \<le> n
     \<and> length (samples s') = length (samples s)
     \<and> (\<forall>i < length (samples s). ended (samples s ! i) \<longrightarrow>
           ended (samples s' ! i) \<and> frozen (samples s ! i) (samples s' ! i))
     \<and> (\<forall>s1. t < k \<and> rollout_step c fb k w t s = Inr s1 \<longrightarrow>
           (list_all ended (samples s1) \<longrightarrow> n = Suc t \<and> s' = s1)
         \<and> (\<forall>i < length (samples s).
               (ended (samples s ! i) \<longrightarrow>
                  ended (samples s1 ! i) \<and> frozen (samples s ! i) (samples s1 ! i))
             \<and> (ended (samples s1 ! i) \<longrightarrow>
                  path_corners (samples s1 ! i) = path_corners (samples s ! i))))"
proof -
  have "(list_all ended (samples s1) \<longrightarrow> n = Suc t \<and> s' = s1)
         \<and> (\<forall>i < length (samples s).
               (ended (samples s ! i) \<longrightarrow>
                  ended (samples s1 ! i) \<and> frozen (samples s ! i) (samples s1 ! i))
             \<and> (ended (samples s1 ! i) \<longrightarrow>
                  path_corners (samples s1 ! i) = path_corners (samples s ! i)))"
    if h: "t < k \<and> rollout_step c fb k w t s = Inr s1" for s1
  proof (intro conjI impI allI)
    assume "list_all ended (samples s1)"
    with h assms(1) show "n = Suc t" "s' = s1"
      by (simp_all add: rollout_loop.simps [of c fb k w t s])
  next
    fix i assume i: "i < length (samples s)"
    from h have s1: "rollout_step c fb k w t s = Inr s1" by simp
    {
      assume "ended (samples s ! i)"
      with rollout_step_keeps [OF s1 i]
      show "ended (samples s1 ! i)" "frozen (samples s ! i) (samples s1 ! i)" by simp_all
    }
    {
      assume "ended (samples s1 ! i)"
      with rollout_step_keeps [OF s1 i]
      show "path_corners (samples s1 ! i) = path_corners (samples s ! i)" by simp
    }
  qed
  with rollout_loop_keeps [OF assms] show ?thesis by blast
qed

theorem rollout_bounded_and_frozen_witness:
  "rollout_loop policy_done Student 2 0 0 state_start = Inr (1, state_done)
   \<and> (1 :: nat) \<le> 2
   \<and> length (samples state_done) = length (samples state_start)
   \<and> ended (samples state_done ! 0)
   \<and> path_corners (samples state_done ! 0) = path_corners (samples state_start ! 0)"
proof -
  note t = rollout_bounded_and_frozen [OF loop_policy_done]
  from t have a: "(1 :: nat) \<le> 2" "length (samples state_done) = length (samples state_start)"
    by simp_all
  have e: "ended (samples state_done ! 0)"
    by (simp add: state_done_def sample_done_def)
  from t step_policy_done have
    "ended (samples state_done ! 0) \<longrightarrow>
       path_corners (samples state_done ! 0) = path_corners (samples state_start ! 0)"
    by (simp add: state_start_def)
  with e a loop_policy_done show ?thesis by simp
qed

section \<open>Facts about the progress value\<close>

lemma compute_iou_disjoint:
  "convex_hull (set (points a)) \<inter> convex_hull (set (points b)) = {}
     \<Longrightarrow> compute_iou sh a b = Inr 0"
  by (simp add: compute_iou_def Let_def)

lemma compute_iou_error:
  "topological_error sh (convex_hull (set (points a))) (convex_hull (set (points b)))
     \<Longrightarrow> compute_iou sh a b = Inr 0"
  by (simp add: compute_iou_def Let_def)

lemma compute_iou_ratio:
  assumes "convex_hull (set (points a)) \<inter> convex_hull (set (points b)) \<noteq> {}"
    and "\<not> topological_error sh (convex_hull (set (points a))) (convex_hull (set (points b)))"
    and "region_area sh (convex_hull (set (points a) \<union> set (points b))) \<noteq> 0"
  shows "compute_iou sh a b =
           Inr (region_area sh (convex_hull (set (points a)) \<inter> convex_hull (set (points b)))
                / region_area sh (convex_hull (set (points a) \<union> set (points b))))"
  using assms by (simp add: compute_iou_def Let_def)

lemma compute_iou_zero_hull:
  assumes "convex_hull (set (points a)) \<inter> convex_hull (set (points b)) \<noteq> {}"
    and "\<not> topological_error sh (convex_hull (set (points a))) (convex_hull (set (points b)))"
    and "region_area sh (convex_hull (set (points a) \<union> set (points b))) = 0"
  shows "compute_iou sh a b = Inl ZeroDivisionError"
  using assms by (simp add: compute_iou_def Let_def)

lemma hull_of_window_nonempty: "convex_hull (set (points a)) \<noteq> {}"
proof -
  obtain c0 c1 c2 c3 where "a = (c0, c1, c2, c3)" by (cases a) auto
  then have "c0 \<in> set (points a)" by (simp add: points_def)
  then show ?thesis by (rule convex_hull_nonempty)
qed

lemma compute_iou_same:
  assumes "\<not> topological_error sh (convex_hull (set (points a))) (convex_hull (set (points a)))"
    and "region_area sh (convex_hull (set (points a))) \<noteq> 0"
  shows "compute_iou sh a a = Inr 1"
  using assms hull_of_window_nonempty [of a] by (simp add: compute_iou_def Let_def)

lemma hull_east_left: "convex_hull (set (points window_east)) \<subseteq> {p. fst p \<le> 2}"
proof (rule convex_hull_minimal)
  show "set (points window_east) \<subseteq> {p. fst p \<le> 2}"
    by (simp add: points_window_east)
  show "is_convex {p. fst p \<le> 2}"
    by (rule is_convex_left)
qed

lemma hull_apart_right: "convex_hull (set (points window_apart)) \<subseteq> {p. 4 \<le> fst p}"
proof (rule convex_hull_minimal)
  show "set (points window_apart) \<subseteq> {p. 4 \<le> fst p}"
    by (simp add: points_def window_apart_def)
  show "is_convex {p. 4 \<le> fst p}"
    by (rule is_convex_right)
qed

lemma east_apart_disjoint:
  "convex_hull (set (points window_east)) \<inter> convex_hull (set (points window_apart)) = {}"
  using hull_east_left hull_apart_right by fastforce

text \<open>
  C3. The value of \<^verbatim>\<open>compute_iou\<close> is 0 when the hulls of the two quadrilaterals have
  no point in common. Otherwise it is the area of the intersection of the two hulls
  divided by the area of the convex hull of the eight corners taken together (not the
  area of the union), provided the library computes the intersection and that hull has
  an area other than 0, as it has for quadrilaterals. For two identical quadrilaterals
  of an area other than 0 the value is 1: the intersection of the hull with itself and
  the hull of the doubled corners are the hull itself.
\<close>

theorem compute_iou_hull_ratio:
  "(convex_hull (set (points a)) \<inter> convex_hull (set (points b)) = {}
      \<longrightarrow> compute_iou sh a b = Inr 0)
   \<and> (convex_hull (set (points a)) \<inter> convex_hull (set (points b)) \<noteq> {}
        \<and> \<not> topological_error sh (convex_hull (set (points a))) (convex_hull (set (points b)))
        \<and> region_area sh (convex_hull (set (points a) \<union> set (points b))) \<noteq> 0
      \<longrightarrow> compute_iou sh a b =
            Inr (region_area sh (convex_hull (set (points a)) \<inter> convex_hull (set (points b)))
                 / region_area sh (convex_hull (set (points a) \<union> set (points b)))))
   \<and> (\<not> topological_error sh (convex_hull (set (points a))) (convex_hull (set (points a)))
        \<and> region_area sh (convex_hull (set (points a))) \<noteq> 0
      \<longrightarrow> compute_iou sh a a = Inr 1)"
  by (simp add: compute_iou_disjoint compute_iou_ratio compute_iou_same)

theorem compute_iou_hull_ratio_witness:
  "compute_iou shapely_east window_east window_apart = Inr 0
   \<and> compute_iou shapely_east_goal window_east window_goal = Inr (1 / 7)
   \<and> compute_iou shapely_east window_east window_east = Inr 1"
proof (intro conjI)
  show "compute_iou shapely_east window_east window_apart = Inr 0"
    using compute_iou_hull_ratio [of window_east window_apart shapely_east]
      east_apart_disjoint by simp
next
  have n: "convex_hull (set (points window_east)) \<inter> convex_hull (set (points window_goal)) \<noteq> {}"
    using east_goal_meet by blast
  have i: "(1, 1) \<notin> convex_hull (set (points window_east))
                      \<inter> convex_hull (set (points window_goal))"
    using corner_not_in_goal by blast
  have u: "(1, 1) \<in> convex_hull (set (points window_east) \<union> set (points window_goal))"
    using corner_in_east_goal by simp
  show "compute_iou shapely_east_goal window_east window_goal = Inr (1 / 7)"
    using compute_iou_hull_ratio [of window_east window_goal shapely_east_goal] n i u
    by (simp add: shapely_east_goal_def)
next
  show "compute_iou shapely_east window_east window_east = Inr 1"
    using compute_iou_hull_ratio [of window_east window_east shapely_east]
    by (simp add: shapely_east_def)
qed

end
